theory Spec2Isabelle
  imports Main "HOL-Library.Word" "HOL-Library.Sublist"
begin

section \<open>Python values, exceptions and strings\<close>

text \<open>
  The handlers receive decoded JSON: a request body is a Python value built from
  \<open>None\<close>, booleans, numbers, strings, lists and dicts. A dict is an association list
  (first binding of a key wins, as \<open>map_of\<close> reads it). A \<open>str\<close> is a \<open>string\<close>;
  one \<open>char\<close> stands for one code point, so the model covers code points below 256 and
  \<open>length\<close> is Python's \<open>len\<close>. A float keeps mantissa and exponent; the code only
  ever asks for its type.
\<close>

datatype pyval =
    PNone
  | PBool bool
  | PInt int
  | PFloat int int
  | PStr string
  | PList "pyval list"
  | PDict "(string \<times> pyval) list"

type_synonym pydict = "(string \<times> pyval) list"
type_synonym bytes = "8 word list"

text \<open>The exception classes that occur: the module's own \<open>SecurityError\<close>, botocore's
  \<open>ClientError\<close> (error code, message), \<open>KeyError\<close>, and any other \<open>Exception\<close>.\<close>

datatype exn =
    SecurityError string
  | ClientError string string
  | KeyError string
  | OtherError string

fun exn_str :: "exn \<Rightarrow> string" where
  "exn_str (SecurityError m) = m"
| "exn_str (ClientError c m) = m"
| "exn_str (KeyError k) = [CHR 0x27] @ k @ [CHR 0x27]"
| "exn_str (OtherError m) = m"

fun is_str :: "pyval \<Rightarrow> bool" where
  "is_str (PStr s) = True"
| "is_str v = False"

fun is_list :: "pyval \<Rightarrow> bool" where
  "is_list (PList xs) = True"
| "is_list v = False"

text \<open>Python truthiness, as \<open>not x\<close> reads it.\<close>

fun truthy :: "pyval \<Rightarrow> bool" where
  "truthy PNone = False"
| "truthy (PBool b) = b"
| "truthy (PInt i) = (i \<noteq> 0)"
| "truthy (PFloat m e) = (m \<noteq> 0)"
| "truthy (PStr s) = (s \<noteq> [])"
| "truthy (PList xs) = (xs \<noteq> [])"
| "truthy (PDict d) = (d \<noteq> [])"

text \<open>\<open>d.get(k, default)\<close>.\<close>

definition dict_get :: "pydict \<Rightarrow> string \<Rightarrow> pyval \<Rightarrow> pyval" where
  "dict_get d k dflt = (case map_of d k of None \<Rightarrow> dflt | Some v \<Rightarrow> v)"

text \<open>\<open>str.strip()\<close>: the white space of \<open>str.isspace\<close> among the code points below 256.\<close>

definition is_space :: "char \<Rightarrow> bool" where
  "is_space c = (let n = (of_char c :: nat) in
     (9 \<le> n \<and> n \<le> 13) \<or> (28 \<le> n \<and> n \<le> 32) \<or> n = 133 \<or> n = 160)"

definition strip :: "string \<Rightarrow> string" where
  "strip s = rev (dropWhile is_space (rev (dropWhile is_space s)))"

text \<open>The character class \<open>[a-zA-Z0-9_-]\<close> and \<open>re.sub(r'[^a-zA-Z0-9_-]', '', s)\<close>.\<close>

definition safe_char :: "char \<Rightarrow> bool" where
  "safe_char c = (let n = (of_char c :: nat) in
     (97 \<le> n \<and> n \<le> 122) \<or> (65 \<le> n \<and> n \<le> 90) \<or> (48 \<le> n \<and> n \<le> 57)
     \<or> c = CHR ''_'' \<or> c = CHR ''-'')"

definition sub_unsafe :: "string \<Rightarrow> string" where
  "sub_unsafe s = filter safe_char s"

text \<open>\<open>re.sub(r'[<>"\']', '', s)\<close>.\<close>

definition markup_char :: "char \<Rightarrow> bool" where
  "markup_char c = (c = CHR ''<'' \<or> c = CHR ''>'' \<or> c = CHR 0x22 \<or> c = CHR 0x27)"

definition sub_markup :: "string \<Rightarrow> string" where
  "sub_markup s = filter (\<lambda>c. \<not> markup_char c) s"

text \<open>Decimal rendering of a natural number, for the f-strings.\<close>

definition digit_char :: "nat \<Rightarrow> char" where
  "digit_char d = ''0123456789'' ! (d mod 10)"

fun str_of_nat :: "nat \<Rightarrow> string" where
  "str_of_nat n =
     (if n < 10 then [digit_char n]
      else str_of_nat (n div 10) @ [digit_char (n mod 10)])"

declare str_of_nat.simps [simp del]

section \<open>Security configuration\<close>

definition MAX_IMAGE_SIZE :: nat where "MAX_IMAGE_SIZE = 10 * 1024 * 1024"
definition MAX_TITLE_LENGTH :: nat where "MAX_TITLE_LENGTH = 100"
definition MAX_DESCRIPTION_LENGTH :: nat where "MAX_DESCRIPTION_LENGTH = 500"
definition MAX_TAGS_COUNT :: nat where "MAX_TAGS_COUNT = 10"
definition ALLOWED_IMAGE_FORMATS :: "string list" where
  "ALLOWED_IMAGE_FORMATS = [''JPEG'', ''PNG'', ''GIF'', ''WEBP'']"

section \<open>InputValidator\<close>

definition validate_user_id :: "pyval \<Rightarrow> exn + string" where
  "validate_user_id user_id =
     (if \<not> truthy user_id \<or> \<not> is_str user_id
      then Inl (SecurityError ''Invalid user_id format'')
      else (case user_id of
          PStr s \<Rightarrow>
            (let sanitized = sub_unsafe (strip s) in
             if length sanitized < 3 \<or> length sanitized > 50
             then Inl (SecurityError ''user_id must be 3-50 characters'')
             else Inr sanitized)
        | _ \<Rightarrow> Inl (SecurityError ''Invalid user_id format'')))"

definition validate_text_field :: "pyval \<Rightarrow> string \<Rightarrow> nat \<Rightarrow> exn + string" where
  "validate_text_field text field_name max_length =
     (case text of
        PStr s \<Rightarrow>
          (let sanitized = sub_markup (strip s) in
           if length sanitized > max_length
           then Inl (SecurityError
                  (field_name @ '' too long. Max length: '' @ str_of_nat max_length))
           else Inr sanitized)
      | _ \<Rightarrow> Inr '''')"

text \<open>The \<open>for tag in tags\<close> loop of \<open>validate_tags\<close>, with \<open>sanitized_tags\<close> as the
  accumulator the loop appends to.\<close>

fun tags_loop :: "pyval list \<Rightarrow> string list \<Rightarrow> string list" where
  "tags_loop [] sanitized_tags = sanitized_tags"
| "tags_loop (PStr s # rest) sanitized_tags =
     (let clean_tag = sub_unsafe (strip s) in
      if length clean_tag > 0 \<and> length clean_tag \<le> 50
      then tags_loop rest (sanitized_tags @ [clean_tag])
      else tags_loop rest sanitized_tags)"
| "tags_loop (tag # rest) sanitized_tags = tags_loop rest sanitized_tags"

definition validate_tags :: "pyval \<Rightarrow> exn + string list" where
  "validate_tags tags =
     (case tags of
        PList ts \<Rightarrow>
          if length ts > MAX_TAGS_COUNT
          then Inl (SecurityError (''Too many tags. Max count: '' @ str_of_nat MAX_TAGS_COUNT))
          else Inr (tags_loop ts [])
      | _ \<Rightarrow> Inr [])"

text \<open>
  \<open>re.match(r'^[A-Za-z0-9+/]*={0,2}$', image_data)\<close>: alphabet characters, then at
  most two \<open>=\<close>; Python's \<open>$\<close> also matches before one final newline.
\<close>

definition b64_char :: "char \<Rightarrow> bool" where
  "b64_char c = (let n = (of_char c :: nat) in
     (65 \<le> n \<and> n \<le> 90) \<or> (97 \<le> n \<and> n \<le> 122) \<or> (48 \<le> n \<and> n \<le> 57)
     \<or> c = CHR ''+'' \<or> c = CHR ''/'')"

definition base64_format :: "string \<Rightarrow> bool" where
  "base64_format s =
     (let t = (if s \<noteq> [] \<and> last s = CHR 0x0A then butlast s else s);
          pad = dropWhile b64_char t
      in pad = [] \<or> pad = ''='' \<or> pad = ''=='')"

section \<open>Libraries and collaborators\<close>

text \<open>
  A decoded PIL image: its container format (\<open>None\<close> when PIL gives none), its size,
  its colour mode and its pixel data, which the code never inspects.
\<close>

record image =
  img_format :: "string option"
  img_size :: "nat \<times> nat"
  img_mode :: string
  img_pixels :: bytes

text \<open>What \<open>json.loads\<close> does with a string: a value, a \<open>JSONDecodeError\<close>, or another
  exception (a \<open>RecursionError\<close> on deep nesting).\<close>

datatype json_result = Loaded pyval | DecodeError string | LoadCrash string

text \<open>What a failing collaborator call raises: a \<open>ClientError\<close> with its error code, or
  another exception of the client library (no endpoint, no credentials).\<close>

datatype aws_error = Client string string | Transport string

fun raised :: "aws_error \<Rightarrow> exn" where
  "raised (Client code msg) = ClientError code msg"
| "raised (Transport msg) = OtherError msg"

datatype aws_call =
    TableLoad
  | CreateTable
  | HeadBucket
  | CreateBucket
  | PutObject string
  | PutItem pydict
  | GetItem string
  | DeleteObject string
  | DeleteItem string

text \<open>
  What the code takes from outside the repository is a parameter of the model: the
  process environment, the library functions (\<open>json.loads\<close>, \<open>base64.b64decode\<close>,
  PIL's \<open>open\<close>, \<open>convert('RGB')\<close> and \<open>save\<close> as JPEG, SHA-256 of the encoded string
  as a 256-bit number, \<open>uuid4\<close>, the successive readings of \<open>datetime.utcnow\<close>), and
  \<open>fault\<close>, the exception a collaborator call raises when it fails.
\<close>

record env =
  allowed_origin :: "string option"
  fault :: "aws_call \<Rightarrow> aws_error option"
  json_loads :: "string \<Rightarrow> json_result"
  b64decode :: "string \<Rightarrow> bytes option"
  image_open :: "bytes \<Rightarrow> exn + image"
  image_convert_rgb :: "image \<Rightarrow> exn + image"
  image_save_jpeg :: "image \<Rightarrow> exn + bytes"
  sha256 :: "string \<Rightarrow> 256 word"
  uuid4 :: string
  utcnow :: "nat \<Rightarrow> string"

record s3_object =
  obj_body :: bytes
  obj_content_type :: string
  obj_metadata :: "(string \<times> string) list"
  obj_sse :: string
  obj_cache_control :: string

text \<open>
  The state the handlers act on: the blob store (bucket, objects by key), the metadata
  store (table, rows by \<open>image_id\<close>), every collaborator call made, in order, and the
  lines printed to the log.
\<close>

record world =
  table_exists :: bool
  bucket_exists :: bool
  blobs :: "string \<rightharpoonup> s3_object"
  items :: "string \<rightharpoonup> pydict"
  calls :: "aws_call list"
  stdout :: "string list"

definition record_call :: "aws_call \<Rightarrow> world \<Rightarrow> world" where
  "record_call c w = w\<lparr>calls := calls w @ [c]\<rparr>"

definition print :: "string \<Rightarrow> world \<Rightarrow> world" where
  "print line w = w\<lparr>stdout := stdout w @ [line]\<rparr>"

text \<open>
  The collaborators behind boto3, as the interface they offer: a call is recorded, then
  raises the injected fault, or raises because its bucket or table is missing, or takes
  effect. Deleting an absent object succeeds.
\<close>

definition table_load :: "env \<Rightarrow> world \<Rightarrow> (exn + unit) \<times> world" where
  "table_load env w =
     (let w1 = record_call TableLoad w in
      case fault env TableLoad of
        Some e \<Rightarrow> (Inl (raised e), w1)
      | None \<Rightarrow>
          if table_exists w1 then (Inr (), w1)
          else (Inl (ClientError ''ResourceNotFoundException'' ''Requested resource not found''), w1))"

definition create_table :: "env \<Rightarrow> world \<Rightarrow> (exn + unit) \<times> world" where
  "create_table env w =
     (let w1 = record_call CreateTable w in
      case fault env CreateTable of
        Some e \<Rightarrow> (Inl (raised e), w1)
      | None \<Rightarrow> (Inr (), w1\<lparr>table_exists := True\<rparr>))"

definition head_bucket :: "env \<Rightarrow> world \<Rightarrow> (exn + unit) \<times> world" where
  "head_bucket env w =
     (let w1 = record_call HeadBucket w in
      case fault env HeadBucket of
        Some e \<Rightarrow> (Inl (raised e), w1)
      | None \<Rightarrow>
          if bucket_exists w1 then (Inr (), w1)
          else (Inl (ClientError ''404'' ''Not Found''), w1))"

definition create_bucket :: "env \<Rightarrow> world \<Rightarrow> (exn + unit) \<times> world" where
  "create_bucket env w =
     (let w1 = record_call CreateBucket w in
      case fault env CreateBucket of
        Some e \<Rightarrow> (Inl (raised e), w1)
      | None \<Rightarrow> (Inr (), w1\<lparr>bucket_exists := True\<rparr>))"

definition put_object :: "env \<Rightarrow> string \<Rightarrow> s3_object \<Rightarrow> world \<Rightarrow> (exn + unit) \<times> world" where
  "put_object env key obj w =
     (let w1 = record_call (PutObject key) w in
      case fault env (PutObject key) of
        Some e \<Rightarrow> (Inl (raised e), w1)
      | None \<Rightarrow>
          if bucket_exists w1 then (Inr (), w1\<lparr>blobs := (blobs w1)(key \<mapsto> obj)\<rparr>)
          else (Inl (ClientError ''NoSuchBucket'' ''The specified bucket does not exist''), w1))"

definition put_item :: "env \<Rightarrow> pydict \<Rightarrow> world \<Rightarrow> (exn + unit) \<times> world" where
  "put_item env item w =
     (let w1 = record_call (PutItem item) w in
      case fault env (PutItem item) of
        Some e \<Rightarrow> (Inl (raised e), w1)
      | None \<Rightarrow>
          if table_exists w1 then
            (case map_of item ''image_id'' of
               Some (PStr k) \<Rightarrow> (Inr (), w1\<lparr>items := (items w1)(k \<mapsto> item)\<rparr>)
             | _ \<Rightarrow> (Inl (ClientError ''ValidationException'' ''Missing the key image_id''), w1))
          else (Inl (ClientError ''ResourceNotFoundException'' ''Requested resource not found''), w1))"

definition get_item :: "env \<Rightarrow> pyval \<Rightarrow> world \<Rightarrow> (exn + pydict option) \<times> world" where
  "get_item env key w =
     (case key of
        PStr k \<Rightarrow>
          (let w1 = record_call (GetItem k) w in
           case fault env (GetItem k) of
             Some e \<Rightarrow> (Inl (raised e), w1)
           | None \<Rightarrow>
               if table_exists w1 then (Inr (items w1 k), w1)
               else (Inl (ClientError ''ResourceNotFoundException'' ''Requested resource not found''), w1))
      | _ \<Rightarrow> (Inl (ClientError ''ValidationException'' ''The key does not match the schema''), w))"

definition delete_object :: "env \<Rightarrow> pyval \<Rightarrow> world \<Rightarrow> (exn + unit) \<times> world" where
  "delete_object env key w =
     (case key of
        PStr k \<Rightarrow>
          (let w1 = record_call (DeleteObject k) w in
           case fault env (DeleteObject k) of
             Some e \<Rightarrow> (Inl (raised e), w1)
           | None \<Rightarrow>
               if bucket_exists w1 then (Inr (), w1\<lparr>blobs := (blobs w1)(k := None)\<rparr>)
               else (Inl (ClientError ''NoSuchBucket'' ''The specified bucket does not exist''), w1))
      | _ \<Rightarrow> (Inl (OtherError ''Parameter validation failed''), w))"

definition delete_item :: "env \<Rightarrow> pyval \<Rightarrow> world \<Rightarrow> (exn + unit) \<times> world" where
  "delete_item env key w =
     (case key of
        PStr k \<Rightarrow>
          (let w1 = record_call (DeleteItem k) w in
           case fault env (DeleteItem k) of
             Some e \<Rightarrow> (Inl (raised e), w1)
           | None \<Rightarrow>
               if table_exists w1 then (Inr (), w1\<lparr>items := (items w1)(k := None)\<rparr>)
               else (Inl (ClientError ''ResourceNotFoundException'' ''Requested resource not found''), w1))
      | _ \<Rightarrow> (Inl (ClientError ''ValidationException'' ''The key does not match the schema''), w))"

section \<open>common.py\<close>

definition create_table_if_not_exists :: "env \<Rightarrow> world \<Rightarrow> (exn + unit) \<times> world" where
  "create_table_if_not_exists env w =
     (case table_load env w of
        (Inr u, w1) \<Rightarrow> (Inr (), w1)
      | (Inl (ClientError code msg), w1) \<Rightarrow>
          if code = ''ResourceNotFoundException'' then create_table env w1
          else (Inl (ClientError code msg), w1)
      | (Inl e, w1) \<Rightarrow> (Inl e, w1))"

definition create_bucket_if_not_exists :: "env \<Rightarrow> world \<Rightarrow> (exn + unit) \<times> world" where
  "create_bucket_if_not_exists env w =
     (case head_bucket env w of
        (Inr u, w1) \<Rightarrow> (Inr (), w1)
      | (Inl (ClientError code msg), w1) \<Rightarrow>
          if code = ''404'' then create_bucket env w1
          else (Inl (ClientError code msg), w1)
      | (Inl e, w1) \<Rightarrow> (Inl e, w1))"

section \<open>secure_upload_image.py\<close>

subsection \<open>InputValidator.validate_image_data\<close>

definition validate_image_data :: "env \<Rightarrow> pyval \<Rightarrow> exn + bytes" where
  "validate_image_data env image_data =
     (if \<not> truthy image_data \<or> \<not> is_str image_data
      then Inl (SecurityError ''Invalid image_data format'')
      else (case image_data of
          PStr s \<Rightarrow>
            if \<not> base64_format s then Inl (SecurityError ''Invalid base64 format'')
            else (case b64decode env s of
                None \<Rightarrow> Inl (SecurityError ''Invalid base64 data'')
              | Some decoded \<Rightarrow>
                  if length decoded > MAX_IMAGE_SIZE
                  then Inl (SecurityError (''Image too large. Max size: ''
                              @ str_of_nat MAX_IMAGE_SIZE @ '' bytes''))
                  else Inr decoded)
        | _ \<Rightarrow> Inl (SecurityError ''Invalid image_data format'')))"

subsection \<open>ImageProcessor\<close>

text \<open>\<open>str(image.format)\<close> inside the f-string, and \<open>image.format or 'JPEG'\<close>.\<close>

definition format_str :: "string option \<Rightarrow> string" where
  "format_str f = (case f of None \<Rightarrow> ''None'' | Some name \<Rightarrow> name)"

definition format_or_jpeg :: "string option \<Rightarrow> string" where
  "format_or_jpeg f =
     (case f of None \<Rightarrow> ''JPEG'' | Some name \<Rightarrow> if name = [] then ''JPEG'' else name)"

definition format_allowed :: "string option \<Rightarrow> bool" where
  "format_allowed f =
     (case f of None \<Rightarrow> False | Some name \<Rightarrow> List.member ALLOWED_IMAGE_FORMATS name)"

text \<open>The body of the \<open>try\<close> block of \<open>process_image\<close>.\<close>

definition process_image_try :: "env \<Rightarrow> bytes \<Rightarrow> exn + (bytes \<times> nat \<times> nat \<times> string)" where
  "process_image_try env image_bytes =
     (case image_open env image_bytes of
        Inl e \<Rightarrow> Inl e
      | Inr img \<Rightarrow>
          if \<not> format_allowed (img_format img)
          then Inl (SecurityError (''Unsupported image format: '' @ format_str (img_format img)))
          else
            (let width = fst (img_size img); height = snd (img_size img) in
             if width > 4096 \<or> height > 4096
             then Inl (SecurityError ''Image dimensions too large'')
             else
               (case (if List.member [''RGBA'', ''LA'', ''P''] (img_mode img)
                      then image_convert_rgb env img else Inr img) of
                  Inl e \<Rightarrow> Inl e
                | Inr converted \<Rightarrow>
                    (case image_save_jpeg env converted of
                       Inl e \<Rightarrow> Inl e
                     | Inr processed_bytes \<Rightarrow>
                         Inr (processed_bytes, width, height,
                              format_or_jpeg (img_format converted))))))"

text \<open>\<open>except Exception as e: raise SecurityError(f"Invalid image data: {str(e)}")\<close>
  catches whatever the block raised, the block's own \<open>SecurityError\<close>s included.\<close>

definition process_image :: "env \<Rightarrow> bytes \<Rightarrow> exn + (bytes \<times> nat \<times> nat \<times> string)" where
  "process_image env image_bytes =
     (case process_image_try env image_bytes of
        Inl e \<Rightarrow> Inl (SecurityError (''Invalid image data: '' @ exn_str e))
      | Inr r \<Rightarrow> Inr r)"

subsection \<open>SecureS3Manager\<close>

text \<open>\<open>hexdigest()\<close>: the 256-bit digest as 64 lower-case hexadecimal digits, the most
  significant first.\<close>

definition hex_char :: "nat \<Rightarrow> char" where
  "hex_char d = ''0123456789abcdef'' ! (d mod 16)"

definition hexdigest :: "256 word \<Rightarrow> string" where
  "hexdigest h = map (\<lambda>i. hex_char (unat (drop_bit (4 * (63 - i)) h))) [0..<64]"

definition generate_secure_key :: "env \<Rightarrow> string \<Rightarrow> string \<Rightarrow> string" where
  "generate_secure_key env user_id image_id =
     (let safe_user_id = sub_unsafe user_id;
          safe_image_id = sub_unsafe image_id;
          user_hash = take 8 (hexdigest (sha256 env user_id))
      in ''images/'' @ user_hash @ ''/'' @ safe_user_id @ ''/'' @ safe_image_id @ ''.jpg'')"

definition upload_image ::
  "env \<Rightarrow> string \<Rightarrow> bytes \<Rightarrow> (string \<times> string) list \<Rightarrow> world \<Rightarrow> (exn + unit) \<times> world" where
  "upload_image env key image_bytes metadata w =
     put_object env key
       \<lparr>obj_body = image_bytes,
        obj_content_type = ''image/jpeg'',
        obj_metadata = metadata,
        obj_sse = ''AES256'',
        obj_cache_control = ''private, max-age=3600''\<rparr> w"

subsection \<open>SecureResponseFormatter\<close>

text \<open>A response; \<open>body\<close> is the value handed to \<open>json.dumps\<close>.\<close>

record response =
  statusCode :: nat
  headers :: "(string \<times> string) list"
  body :: pyval

text \<open>\<open>os.environ.get('ALLOWED_ORIGIN', 'https://yourdomain.com')\<close>.\<close>

definition cors_origin :: "env \<Rightarrow> string" where
  "cors_origin env =
     (case allowed_origin env of None \<Rightarrow> ''https://yourdomain.com'' | Some origin \<Rightarrow> origin)"

definition success_response :: "env \<Rightarrow> pyval \<Rightarrow> nat \<Rightarrow> response" where
  "success_response env data status_code =
     \<lparr>statusCode = status_code,
      headers =
        [(''Content-Type'', ''application/json''),
         (''Access-Control-Allow-Origin'', cors_origin env),
         (''Access-Control-Allow-Methods'', ''POST, OPTIONS''),
         (''Access-Control-Allow-Headers'', ''Content-Type, Authorization''),
         (''X-Content-Type-Options'', ''nosniff''),
         (''X-Frame-Options'', ''DENY''),
         (''X-XSS-Protection'', ''1; mode=block''),
         (''Strict-Transport-Security'', ''max-age=31536000; includeSubDomains'')],
      body = data\<rparr>"

definition generic_message :: "nat \<Rightarrow> string" where
  "generic_message status_code =
     (if status_code = 400 then ''Invalid request''
      else if status_code = 401 then ''Unauthorized''
      else if status_code = 403 then ''Forbidden''
      else if status_code = 413 then ''Request too large''
      else ''An error occurred processing your request'')"

definition error_response :: "env \<Rightarrow> string \<Rightarrow> nat \<Rightarrow> world \<Rightarrow> response \<times> world" where
  "error_response env error_message status_code w =
     (\<lparr>statusCode = status_code,
       headers =
         [(''Content-Type'', ''application/json''),
          (''Access-Control-Allow-Origin'', cors_origin env),
          (''X-Content-Type-Options'', ''nosniff''),
          (''X-Frame-Options'', ''DENY'')],
       body = PDict [(''error'', PStr (generic_message status_code))]\<rparr>,
      print (''Error '' @ str_of_nat status_code @ '': '' @ error_message) w)"

subsection \<open>secure_lambda_handler\<close>

definition validate_request_size :: "pydict \<Rightarrow> exn + unit" where
  "validate_request_size event =
     (case dict_get event ''body'' (PStr '''') of
        PStr s \<Rightarrow>
          if length s > MAX_IMAGE_SIZE * 2 then Inl (SecurityError ''Request too large'')
          else Inr ()
      | _ \<Rightarrow> Inr ())"

text \<open>
  How a stretch of the handler ends: it goes on with a value, it returns
  \<open>formatter.error_response(message, status)\<close> from one of its inner \<open>except\<close> clauses,
  or it raises to the handler's outer \<open>try\<close>.
\<close>

datatype 'a flow = Next 'a | Respond string nat | Raise exn

text \<open>Parse and validate request body: from \<open>isinstance(event.get('body'), str)\<close> to
  \<open>isinstance(body, dict)\<close>.\<close>

definition parse_body :: "env \<Rightarrow> pydict \<Rightarrow> pydict flow" where
  "parse_body env event =
     (case (case dict_get event ''body'' PNone of
              PStr s \<Rightarrow>
                (case json_loads env s of
                   Loaded v \<Rightarrow> Next v
                 | DecodeError m \<Rightarrow> Respond ''Invalid JSON format'' 400
                 | LoadCrash m \<Rightarrow> Raise (OtherError m))
            | _ \<Rightarrow> Next (dict_get event ''body'' (PDict []))) of
        Next (PDict d) \<Rightarrow> Next d
      | Next v \<Rightarrow> Respond ''Invalid request format'' 400
      | Respond m c \<Rightarrow> Respond m c
      | Raise e \<Rightarrow> Raise e)"

record upload_fields =
  f_user_id :: string
  f_image_data :: bytes
  f_title :: string
  f_description :: string
  f_tags :: "string list"

text \<open>Validate and sanitize all inputs: the five validator calls in order, the first
  \<open>SecurityError\<close> answered with status 400.\<close>

definition validate_inputs :: "env \<Rightarrow> pydict \<Rightarrow> upload_fields flow" where
  "validate_inputs env req =
     (case validate_user_id (dict_get req ''user_id'' (PStr '''')) of
        Inl e \<Rightarrow> Respond (exn_str e) 400
      | Inr user_id \<Rightarrow>
     (case validate_image_data env (dict_get req ''image_data'' (PStr '''')) of
        Inl e \<Rightarrow> Respond (exn_str e) 400
      | Inr image_data \<Rightarrow>
     (case validate_text_field (dict_get req ''title'' (PStr '''')) ''title'' MAX_TITLE_LENGTH of
        Inl e \<Rightarrow> Respond (exn_str e) 400
      | Inr title \<Rightarrow>
     (case validate_text_field (dict_get req ''description'' (PStr '''')) ''description''
             MAX_DESCRIPTION_LENGTH of
        Inl e \<Rightarrow> Respond (exn_str e) 400
      | Inr description \<Rightarrow>
     (case validate_tags (dict_get req ''tags'' (PList [])) of
        Inl e \<Rightarrow> Respond (exn_str e) 400
      | Inr tags \<Rightarrow>
          Next \<lparr>f_user_id = user_id, f_image_data = image_data, f_title = title,
                f_description = description, f_tags = tags\<rparr>)))))"

text \<open>Process image securely.\<close>

definition process_stage :: "env \<Rightarrow> bytes \<Rightarrow> (bytes \<times> nat \<times> nat \<times> string) flow" where
  "process_stage env image_data =
     (case process_image env image_data of
        Inl e \<Rightarrow> Respond (exn_str e) 400
      | Inr r \<Rightarrow> Next r)"

definition metadata_item ::
  "env \<Rightarrow> upload_fields \<Rightarrow> string \<Rightarrow> string \<Rightarrow> bytes \<Rightarrow> nat \<Rightarrow> nat \<Rightarrow> string \<Rightarrow> pydict" where
  "metadata_item env f image_id s3_key processed_bytes width height format_type =
     [(''image_id'', PStr image_id),
      (''user_id'', PStr (f_user_id f)),
      (''title'', PStr (f_title f)),
      (''description'', PStr (f_description f)),
      (''tags'', PList (map PStr (f_tags f))),
      (''s3_key'', PStr s3_key),
      (''width'', PInt (int width)),
      (''height'', PInt (int height)),
      (''format'', PStr format_type),
      (''file_size'', PInt (int (length processed_bytes))),
      (''created_at'', PStr (utcnow env 0)),
      (''updated_at'', PStr (utcnow env 1))]"

definition success_data ::
  "env \<Rightarrow> upload_fields \<Rightarrow> string \<Rightarrow> bytes \<Rightarrow> nat \<Rightarrow> nat \<Rightarrow> pyval" where
  "success_data env f image_id processed_bytes width height =
     PDict
      [(''message'', PStr ''Image uploaded successfully''),
       (''image_id'', PStr image_id),
       (''metadata'', PDict
          [(''image_id'', PStr image_id),
           (''user_id'', PStr (f_user_id f)),
           (''title'', PStr (f_title f)),
           (''description'', PStr (f_description f)),
           (''tags'', PList (map PStr (f_tags f))),
           (''width'', PInt (int width)),
           (''height'', PInt (int height)),
           (''file_size'', PInt (int (length processed_bytes))),
           (''created_at'', PStr (utcnow env 0))])]"

text \<open>Generate identifiers, build the metadata, upload to S3, save the metadata to
  DynamoDB, return the success response.\<close>

definition persist ::
  "env \<Rightarrow> upload_fields \<Rightarrow> (bytes \<times> nat \<times> nat \<times> string) \<Rightarrow> world \<Rightarrow> response flow \<times> world" where
  "persist env f processed w =
     (case processed of (processed_bytes, width, height, format_type) \<Rightarrow>
       (let image_id = uuid4 env;
            s3_key = generate_secure_key env (f_user_id f) image_id;
            metadata = metadata_item env f image_id s3_key processed_bytes width height format_type
        in case upload_image env s3_key processed_bytes
                  [(''user_id'', f_user_id f),
                   (''title'', f_title f),
                   (''description'', f_description f),
                   (''upload_time'', utcnow env 0)] w of
             (Inl e, w1) \<Rightarrow> (Raise e, w1)
           | (Inr u, w1) \<Rightarrow>
               (case put_item env metadata w1 of
                  (Inl e, w2) \<Rightarrow> (Raise e, w2)
                | (Inr u', w2) \<Rightarrow>
                    (Next (success_response env
                             (success_data env f image_id processed_bytes width height) 201),
                     w2))))"

text \<open>Initialize resources: the table, then the bucket.\<close>

definition initialise :: "env \<Rightarrow> world \<Rightarrow> (exn + unit) \<times> world" where
  "initialise env w =
     (case create_table_if_not_exists env w of
        (Inl e, w1) \<Rightarrow> (Inl e, w1)
      | (Inr u, w1) \<Rightarrow> create_bucket_if_not_exists env w1)"

text \<open>The outer \<open>try\<close> block.\<close>

definition handler_try :: "env \<Rightarrow> pydict \<Rightarrow> world \<Rightarrow> response flow \<times> world" where
  "handler_try env event w =
     (case validate_request_size event of
        Inl e \<Rightarrow> (Raise e, w)
      | Inr u \<Rightarrow>
     (case initialise env w of
        (Inl e, w2) \<Rightarrow> (Raise e, w2)
      | (Inr u2, w2) \<Rightarrow>
     (case parse_body env event of
        Respond m c \<Rightarrow> (Respond m c, w2)
      | Raise e \<Rightarrow> (Raise e, w2)
      | Next req \<Rightarrow>
     (case validate_inputs env req of
        Respond m c \<Rightarrow> (Respond m c, w2)
      | Raise e \<Rightarrow> (Raise e, w2)
      | Next f \<Rightarrow>
     (case process_stage env (f_image_data f) of
        Respond m c \<Rightarrow> (Respond m c, w2)
      | Raise e \<Rightarrow> (Raise e, w2)
      | Next processed \<Rightarrow> persist env f processed w2)))))"

text \<open>The handler: the block's response, or what its \<open>except\<close> clauses make of an
  exception.\<close>

definition secure_lambda_handler :: "env \<Rightarrow> pydict \<Rightarrow> world \<Rightarrow> response \<times> world" where
  "secure_lambda_handler env event w =
     (case handler_try env event w of
        (Next r, w') \<Rightarrow> (r, w')
      | (Respond m c, w') \<Rightarrow> error_response env m c w'
      | (Raise (SecurityError m), w') \<Rightarrow> error_response env m 400 w'
      | (Raise e, w') \<Rightarrow>
          error_response env ''Internal server error'' 500
            (print (''Unexpected error: '' @ exn_str e) w'))"

section \<open>delete_image.py\<close>

definition plain_response :: "nat \<Rightarrow> pyval \<Rightarrow> response" where
  "plain_response status_code data =
     \<lparr>statusCode = status_code,
      headers = [(''Content-Type'', ''application/json''), (''Access-Control-Allow-Origin'', ''*'')],
      body = data\<rparr>"

text \<open>\<open>event.get('pathParameters', {}).get('image_id')\<close>: \<open>.get\<close> on anything but a dict
  raises.\<close>

definition path_image_id :: "pydict \<Rightarrow> exn + pyval" where
  "path_image_id event =
     (case dict_get event ''pathParameters'' (PDict []) of
        PDict params \<Rightarrow> Inr (dict_get params ''image_id'' PNone)
      | _ \<Rightarrow> Inl (OtherError ''object has no attribute get''))"

definition delete_try :: "env \<Rightarrow> pydict \<Rightarrow> world \<Rightarrow> (exn + response) \<times> world" where
  "delete_try env event w =
     (case create_table_if_not_exists env w of
        (Inl e, w1) \<Rightarrow> (Inl e, w1)
      | (Inr u, w1) \<Rightarrow>
     (case path_image_id event of
        Inl e \<Rightarrow> (Inl e, w1)
      | Inr image_id \<Rightarrow>
          if \<not> truthy image_id
          then (Inr (plain_response 400 (PDict [(''error'', PStr ''image_id is required'')])), w1)
          else
     (case get_item env image_id w1 of
        (Inl e, w2) \<Rightarrow> (Inl e, w2)
      | (Inr None, w2) \<Rightarrow>
          (Inr (plain_response 404 (PDict [(''error'', PStr ''Image not found'')])), w2)
      | (Inr (Some item), w2) \<Rightarrow>
     (case map_of item ''s3_key'' of
        None \<Rightarrow> (Inl (KeyError ''s3_key''), w2)
      | Some s3_key \<Rightarrow>
          (let w3 = (case delete_object env s3_key w2 of
                       (Inl e, w') \<Rightarrow> print (''Warning: Failed to delete from S3: '' @ exn_str e) w'
                     | (Inr u', w') \<Rightarrow> w')
           in case delete_item env image_id w3 of
                (Inl e, w4) \<Rightarrow> (Inl e, w4)
              | (Inr u'', w4) \<Rightarrow>
                  (Inr (plain_response 200
                          (PDict [(''message'', PStr ''Image deleted successfully''),
                                  (''image_id'', image_id)])), w4))))))"

definition delete_lambda_handler :: "env \<Rightarrow> pydict \<Rightarrow> world \<Rightarrow> response \<times> world" where
  "delete_lambda_handler env event w =
     (case delete_try env event w of
        (Inr r, w') \<Rightarrow> (r, w')
      | (Inl e, w') \<Rightarrow>
          (plain_response 500 (PDict [(''error'', PStr (''Internal server error: '' @ exn_str e))]),
           w'))"

section \<open>The claims' own notions\<close>

text \<open>An acceptable owner id, as the specification words it: a non-empty string whose
  characters from \<open>[A-Za-z0-9_-]\<close> number between 3 and 50.\<close>

definition owner_id_acceptable :: "pyval \<Rightarrow> bool" where
  "owner_id_acceptable v =
     (case v of
        PStr s \<Rightarrow> s \<noteq> [] \<and> 3 \<le> length (filter safe_char s) \<and> length (filter safe_char s) \<le> 50
      | _ \<Rightarrow> False)"

text \<open>The writes to the two stores among the collaborator calls.\<close>

fun is_write :: "aws_call \<Rightarrow> bool" where
  "is_write (PutObject key) = True"
| "is_write (PutItem item) = True"
| "is_write c = False"

fun is_delete_object :: "aws_call \<Rightarrow> bool" where
  "is_delete_object (DeleteObject key) = True"
| "is_delete_object c = False"

text \<open>Neither store changed and no write or object deletion was called between two states.\<close>

definition untouched :: "world \<Rightarrow> world \<Rightarrow> bool" where
  "untouched w w' =
     (blobs w' = blobs w \<and> items w' = items w
      \<and> filter is_write (calls w') = filter is_write (calls w)
      \<and> filter is_delete_object (calls w') = filter is_delete_object (calls w))"

text \<open>The string entries of a tags list, in order, and the tags the specification keeps:
  each string entry sanitized to the character class, those of length 1 to 50.\<close>

fun str_entries :: "pyval list \<Rightarrow> string list" where
  "str_entries [] = []"
| "str_entries (PStr s # rest) = s # str_entries rest"
| "str_entries (v # rest) = str_entries rest"

definition tag_ok :: "string \<Rightarrow> bool" where
  "tag_ok t = (list_all safe_char t \<and> 1 \<le> length t \<and> length t \<le> 50)"

definition kept_tags :: "pyval list \<Rightarrow> string list" where
  "kept_tags ts =
     filter (\<lambda>t. 1 \<le> length t \<and> length t \<le> 50) (map (filter safe_char) (str_entries ts))"

text \<open>The class of an exception, and of what a result raised.\<close>

fun exn_class :: "exn \<Rightarrow> string" where
  "exn_class (SecurityError m) = ''SecurityError''"
| "exn_class (ClientError c m) = ''ClientError''"
| "exn_class (KeyError k) = ''KeyError''"
| "exn_class (OtherError m) = ''Exception''"

definition raised_class :: "exn + 'a \<Rightarrow> string option" where
  "raised_class r = (case r of Inl e \<Rightarrow> Some (exn_class e) | Inr x \<Rightarrow> None)"

text \<open>The segments of a key between its slashes, as \<open>key.split('/')\<close> gives them.\<close>

fun split_on :: "char \<Rightarrow> string \<Rightarrow> string list" where
  "split_on c [] = [[]]"
| "split_on c (x # xs) =
     (if x = c then [] # split_on c xs
      else (case split_on c xs of [] \<Rightarrow> [[x]] | seg # segs \<Rightarrow> (x # seg) # segs))"

definition is_hex :: "char \<Rightarrow> bool" where
  "is_hex c = List.member ''0123456789abcdef'' c"

definition error_body :: "string \<Rightarrow> pyval" where
  "error_body msg = PDict [(''error'', PStr msg)]"

text \<open>The first path segment of a key: the first eight characters of the digest of the
  owner id.\<close>

definition user_hash :: "env \<Rightarrow> string \<Rightarrow> string" where
  "user_hash env user_id = take 8 (hexdigest (sha256 env user_id))"

text \<open>The key, the object and the metadata row that the handler writes for validated
  fields and a processed image.\<close>

definition upload_key :: "env \<Rightarrow> upload_fields \<Rightarrow> string" where
  "upload_key env f = generate_secure_key env (f_user_id f) (uuid4 env)"

definition upload_object :: "env \<Rightarrow> upload_fields \<Rightarrow> (bytes \<times> nat \<times> nat \<times> string) \<Rightarrow> s3_object" where
  "upload_object env f p =
     \<lparr>obj_body = fst p,
      obj_content_type = ''image/jpeg'',
      obj_metadata = [(''user_id'', f_user_id f), (''title'', f_title f),
                      (''description'', f_description f), (''upload_time'', utcnow env 0)],
      obj_sse = ''AES256'',
      obj_cache_control = ''private, max-age=3600''\<rparr>"

definition upload_item :: "env \<Rightarrow> upload_fields \<Rightarrow> (bytes \<times> nat \<times> nat \<times> string) \<Rightarrow> pydict" where
  "upload_item env f p =
     (case p of (processed_bytes, width, height, format_type) \<Rightarrow>
        metadata_item env f (uuid4 env) (upload_key env f) processed_bytes width height format_type)"

section \<open>Sample requests\<close>

definition sample_jpeg :: bytes where
  "sample_jpeg = [0xFF, 0xD8, 0xFF, 0xD9]"

definition sample_bmp :: bytes where
  "sample_bmp = [0x42, 0x4D]"

definition sample_wide :: bytes where
  "sample_wide = [0x89, 0x50]"

definition sample_image :: image where
  "sample_image = \<lparr>img_format = Some ''JPEG'', img_size = (100, 100), img_mode = ''RGB'',
                    img_pixels = []\<rparr>"

definition sample_req :: pydict where
  "sample_req =
     [(''user_id'', PStr ''user123''),
      (''image_data'', PStr ''/9j/2Q==''),
      (''title'', PStr ''Test Image''),
      (''tags'', PList [PStr ''test'', PStr ''sample''])]"

definition sample_json :: string where
  "sample_json = ''{...}''"

text \<open>Libraries that know three images and one document, a table and a bucket that exist,
  collaborators that do not fail.\<close>

definition sample_env :: env where
  "sample_env =
     \<lparr>allowed_origin = None,
      fault = (\<lambda>c. None),
      json_loads = (\<lambda>s. if s = sample_json then Loaded (PDict sample_req)
                          else DecodeError ''Expecting value''),
      b64decode = (\<lambda>s. if s = ''/9j/2Q=='' then Some sample_jpeg else None),
      image_open = (\<lambda>b. if b = sample_jpeg then Inr sample_image
                          else if b = sample_bmp
                          then Inr (sample_image\<lparr>img_format := Some ''BMP''\<rparr>)
                          else if b = sample_wide
                          then Inr (sample_image\<lparr>img_format := Some ''PNG'', img_size := (5000, 100)\<rparr>)
                          else Inl (OtherError ''cannot identify image file'')),
      image_convert_rgb = (\<lambda>im. Inr (im\<lparr>img_format := None, img_mode := ''RGB''\<rparr>)),
      image_save_jpeg = (\<lambda>im. Inr sample_jpeg),
      sha256 = (\<lambda>s. if s = ''user123''
                 then 0xe606e38b0d8c19b24cf0ee3808183162ea7cd63ff7912dbb22b5e803286b4446
                 else 0),
      uuid4 = ''0b8f6a2e-5f0c-4c1d-9d3a-7e1f2a3b4c5d'',
      utcnow = (\<lambda>n. ''2024-01-01T00:00:00'')\<rparr>"

definition sample_world :: world where
  "sample_world =
     \<lparr>table_exists = True, bucket_exists = True, blobs = Map.empty, items = Map.empty,
      calls = [], stdout = []\<rparr>"

definition body_event :: "pydict \<Rightarrow> pydict" where
  "body_event req = [(''body'', PDict req)]"

text \<open>A request whose owner id keeps two characters of the class.\<close>

definition short_owner_req :: pydict where
  "short_owner_req =
     [(''user_id'', PStr ''a!b''), (''image_data'', PStr ''/9j/2Q==''), (''title'', PStr ''Test Image'')]"

text \<open>Tag lists: four entries of which two survive, and eleven entries of which one is a
  string.\<close>

definition mixed_tags :: "pyval list" where
  "mixed_tags = [PStr ''test'', PStr ''!!'', PStr (replicate 51 CHR ''a''), PStr ''sam ple'']"

definition eleven_tags :: "pyval list" where
  "eleven_tags = replicate 10 PNone @ [PStr ''test'']"

definition numbered_tags :: "pyval list" where
  "numbered_tags = [PInt 1, PNone, PStr ''test'']"

text \<open>A request body of more than twice the image limit, and a decoder whose output
  exceeds the limit.\<close>

definition oversize_event :: pydict where
  "oversize_event = [(''body'', PStr (replicate 20971521 CHR ''A''))]"

definition big_payload_env :: env where
  "big_payload_env = sample_env\<lparr>b64decode := (\<lambda>s. Some (replicate 10485761 0))\<rparr>"

text \<open>The sample request validated and processed, and collaborators that fail on the
  blob write or on the metadata write.\<close>

definition sample_fields :: upload_fields where
  "sample_fields =
     \<lparr>f_user_id = ''user123'', f_image_data = sample_jpeg, f_title = ''Test Image'',
      f_description = '''', f_tags = [''test'', ''sample'']\<rparr>"

definition sample_processed :: "bytes \<times> nat \<times> nat \<times> string" where
  "sample_processed = (sample_jpeg, 100, 100, ''JPEG'')"

definition blob_fault_env :: env where
  "blob_fault_env =
     sample_env\<lparr>fault := (\<lambda>c. case c of
        PutObject key \<Rightarrow> Some (Client ''InternalError'' ''We encountered an internal error'')
      | _ \<Rightarrow> None)\<rparr>"

definition item_fault_env :: env where
  "item_fault_env =
     sample_env\<lparr>fault := (\<lambda>c. case c of
        PutItem item \<Rightarrow> Some (Client ''ProvisionedThroughputExceededException'' ''Rate exceeded'')
      | _ \<Rightarrow> None)\<rparr>"

text \<open>The sample request with ten valid tags and an eleventh of no valid character, and
  with an invalid tag between two valid ones.\<close>

definition eleven_tag_req :: pydict where
  "eleven_tag_req =
     [(''user_id'', PStr ''user123''),
      (''image_data'', PStr ''/9j/2Q==''),
      (''title'', PStr ''Test Image''),
      (''tags'', PList (replicate 10 (PStr ''test'') @ [PStr ''!!!'']))]"

definition dropped_tag_req :: pydict where
  "dropped_tag_req =
     [(''user_id'', PStr ''user123''),
      (''image_data'', PStr ''/9j/2Q==''),
      (''title'', PStr ''Test Image''),
      (''tags'', PList [PStr ''test'', PStr ''!!!'', PStr ''sample''])]"

text \<open>A metadata row whose blob is not in the blob store, the request that deletes it,
  and a blob store that refuses deletions.\<close>

definition orphan_item :: pydict where
  "orphan_item =
     [(''image_id'', PStr ''img1''), (''user_id'', PStr ''user123''),
      (''s3_key'', PStr ''images/user123/img1.jpg'')]"

definition orphan_world :: world where
  "orphan_world = sample_world\<lparr>items := [''img1'' \<mapsto> orphan_item]\<rparr>"

definition delete_event :: pydict where
  "delete_event = [(''pathParameters'', PDict [(''image_id'', PStr ''img1'')])]"

definition delete_fault_env :: env where
  "delete_fault_env =
     sample_env\<lparr>fault := (\<lambda>c. case c of
        DeleteObject key \<Rightarrow> Some (Client ''AccessDenied'' ''Access Denied'')
      | _ \<Rightarrow> None)\<rparr>"

text \<open>A metadata store that cannot be reached: loading the table fails, and not for a
  missing table.\<close>

definition table_fault_env :: env where
  "table_fault_env =
     sample_env\<lparr>fault := (\<lambda>c. case c of
        TableLoad \<Rightarrow> Some (Transport ''Could not connect to the endpoint URL'')
      | _ \<Rightarrow> None)\<rparr>"

section \<open>Properties\<close>

subsection \<open>Sanitizing\<close>

lemma is_space_not_safe: "is_space c \<Longrightarrow> \<not> safe_char c"
  by (auto simp: is_space_def safe_char_def Let_def)

lemma filter_dropWhile_disjoint:
  "(\<And>x. P x \<Longrightarrow> \<not> Q x) \<Longrightarrow> filter Q (dropWhile P xs) = filter Q xs"
  by (induction xs) auto

lemma sub_unsafe_strip: "sub_unsafe (strip s) = filter safe_char s"
proof -
  have "filter safe_char (rev (dropWhile is_space (rev (dropWhile is_space s))))
        = rev (filter safe_char (dropWhile is_space (rev (dropWhile is_space s))))"
    by (simp add: rev_filter)
  also have "\<dots> = rev (filter safe_char (rev (dropWhile is_space s)))"
    by (simp add: filter_dropWhile_disjoint is_space_not_safe)
  also have "\<dots> = filter safe_char (dropWhile is_space s)"
    by (simp add: rev_filter)
  also have "\<dots> = filter safe_char s"
    by (simp add: filter_dropWhile_disjoint is_space_not_safe)
  finally show ?thesis by (simp add: sub_unsafe_def strip_def)
qed

subsection \<open>The owner id\<close>

lemma validate_user_id_rejects:
  assumes "\<not> owner_id_acceptable v"
  shows "validate_user_id v = Inl (SecurityError ''Invalid user_id format'')
       \<or> validate_user_id v = Inl (SecurityError ''user_id must be 3-50 characters'')"
proof (cases v)
  case (PStr s)
  with assms show ?thesis
    by (auto simp: validate_user_id_def owner_id_acceptable_def sub_unsafe_strip Let_def)
qed (simp_all add: validate_user_id_def)

lemma validate_user_id_accepts:
  assumes "owner_id_acceptable v"
  shows "\<exists>s. v = PStr s \<and> validate_user_id v = Inr (filter safe_char s)"
proof (cases v)
  case (PStr s)
  with assms show ?thesis
    by (auto simp: validate_user_id_def owner_id_acceptable_def sub_unsafe_strip Let_def)
qed (use assms in \<open>simp_all add: owner_id_acceptable_def\<close>)

lemma validate_inputs_bad_owner:
  assumes "\<not> owner_id_acceptable (dict_get req ''user_id'' (PStr ''''))"
  shows "\<exists>m. validate_inputs env req = Respond m 400"
  using validate_user_id_rejects[OF assms] by (auto simp: validate_inputs_def)

subsection \<open>The stores under resource initialisation\<close>

lemma raised_not_security [simp]: "raised a \<noteq> SecurityError m"
  by (cases a) simp_all

lemma untouched_refl [simp]: "untouched w w"
  by (simp add: untouched_def)

lemma untouched_trans: "untouched w w1 \<Longrightarrow> untouched w1 w2 \<Longrightarrow> untouched w w2"
  by (simp add: untouched_def)

lemma table_load_untouched: "table_load env w = (r, w') \<Longrightarrow> untouched w w'"
  by (auto simp: table_load_def record_call_def untouched_def Let_def split: option.splits if_splits)

lemma create_table_untouched: "create_table env w = (r, w') \<Longrightarrow> untouched w w'"
  by (auto simp: create_table_def record_call_def untouched_def Let_def split: option.splits if_splits)

lemma head_bucket_untouched: "head_bucket env w = (r, w') \<Longrightarrow> untouched w w'"
  by (auto simp: head_bucket_def record_call_def untouched_def Let_def split: option.splits if_splits)

lemma create_bucket_untouched: "create_bucket env w = (r, w') \<Longrightarrow> untouched w w'"
  by (auto simp: create_bucket_def record_call_def untouched_def Let_def split: option.splits if_splits)

lemma create_table_if_not_exists_untouched:
  "create_table_if_not_exists env w = (r, w') \<Longrightarrow> untouched w w'"
  unfolding create_table_if_not_exists_def
  by (auto split: prod.splits sum.splits exn.splits if_splits
      dest: table_load_untouched create_table_untouched intro: untouched_trans)

lemma create_bucket_if_not_exists_untouched:
  "create_bucket_if_not_exists env w = (r, w') \<Longrightarrow> untouched w w'"
  unfolding create_bucket_if_not_exists_def
  by (auto split: prod.splits sum.splits exn.splits if_splits
      dest: head_bucket_untouched create_bucket_untouched intro: untouched_trans)

lemma initialise_untouched: "initialise env w = (r, w') \<Longrightarrow> untouched w w'"
  unfolding initialise_def
  by (auto split: prod.splits sum.splits
      dest: create_table_if_not_exists_untouched create_bucket_if_not_exists_untouched
      intro: untouched_trans)

subsection \<open>What failing calls raise\<close>

lemma table_load_exn: "table_load env w = (Inl e, w') \<Longrightarrow> e \<noteq> SecurityError m"
  by (auto simp: table_load_def Let_def split: option.splits if_splits)
lemma create_table_exn: "create_table env w = (Inl e, w') \<Longrightarrow> e \<noteq> SecurityError m"
  by (auto simp: create_table_def Let_def split: option.splits if_splits)
lemma head_bucket_exn: "head_bucket env w = (Inl e, w') \<Longrightarrow> e \<noteq> SecurityError m"
  by (auto simp: head_bucket_def Let_def split: option.splits if_splits)
lemma create_bucket_exn: "create_bucket env w = (Inl e, w') \<Longrightarrow> e \<noteq> SecurityError m"
  by (auto simp: create_bucket_def Let_def split: option.splits if_splits)

lemma create_table_if_not_exists_exn:
  "create_table_if_not_exists env w = (Inl e, w') \<Longrightarrow> e \<noteq> SecurityError m"
  unfolding create_table_if_not_exists_def
  by (auto split: prod.splits sum.splits exn.splits if_splits dest: table_load_exn create_table_exn)

lemma create_bucket_if_not_exists_exn:
  "create_bucket_if_not_exists env w = (Inl e, w') \<Longrightarrow> e \<noteq> SecurityError m"
  unfolding create_bucket_if_not_exists_def
  by (auto split: prod.splits sum.splits exn.splits if_splits dest: head_bucket_exn create_bucket_exn)

lemma initialise_exn: "initialise env w = (Inl e, w') \<Longrightarrow> e \<noteq> SecurityError m"
  unfolding initialise_def
  by (auto split: prod.splits sum.splits dest: create_table_if_not_exists_exn create_bucket_if_not_exists_exn)

lemma error_response_status [simp]: "statusCode (fst (error_response env m c w)) = c"
  by (simp add: error_response_def)

lemma error_response_body [simp]:
  "body (fst (error_response env m c w)) = error_body (generic_message c)"
  by (simp add: error_response_def error_body_def)

lemma print_untouched [simp]: "untouched w0 (print l w) = untouched w0 w"
  by (simp add: print_def untouched_def)

lemma error_response_untouched [simp]: "untouched w0 (snd (error_response env m c w)) = untouched w0 w"
  by (simp add: error_response_def)

lemma validate_request_size_exn:
  "validate_request_size event = Inl e \<Longrightarrow> e = SecurityError ''Request too large''"
  by (auto simp: validate_request_size_def split: pyval.splits if_splits)

subsection \<open>What the handler makes of each way its block can end\<close>

lemma handler_of_respond:
  "handler_try env event w = (Respond m c, w1) \<Longrightarrow>
   secure_lambda_handler env event w = error_response env m c w1"
  by (simp add: secure_lambda_handler_def)

lemma handler_of_security:
  "handler_try env event w = (Raise (SecurityError m), w1) \<Longrightarrow>
   secure_lambda_handler env event w = error_response env m 400 w1"
  by (simp add: secure_lambda_handler_def)

lemma handler_of_other:
  assumes "handler_try env event w = (Raise e, w1)" and "\<And>m. e \<noteq> SecurityError m"
  shows "secure_lambda_handler env event w =
     error_response env ''Internal server error'' 500 (print (''Unexpected error: '' @ exn_str e) w1)"
proof (cases e)
  case (SecurityError m)
  with assms(2) show ?thesis by blast
qed (use assms(1) in \<open>simp_all add: secure_lambda_handler_def\<close>)

lemma handler_of_next:
  "handler_try env event w = (Next r, w1) \<Longrightarrow> secure_lambda_handler env event w = (r, w1)"
  by (simp add: secure_lambda_handler_def)

lemma answered_with_error:
  assumes "secure_lambda_handler env event w = (r, w')"
    and "secure_lambda_handler env event w = error_response env m c w1"
  shows "statusCode r = c" and "body r = error_body (generic_message c)"
    and "untouched w0 w' = untouched w0 w1"
proof -
  have "r = fst (error_response env m c w1)" and "w' = snd (error_response env m c w1)"
    using assms by simp_all
  then show "statusCode r = c" and "body r = error_body (generic_message c)"
    and "untouched w0 w' = untouched w0 w1"
    by simp_all
qed

lemma generic_400 [simp]: "generic_message 400 = ''Invalid request''"
  by (simp add: generic_message_def)

lemma generic_500 [simp]: "generic_message 500 = ''An error occurred processing your request''"
  by (simp add: generic_message_def)

subsection \<open>The sample environment\<close>

lemma sample_env_sel [simp]:
  "allowed_origin sample_env = None"
  "fault sample_env = (\<lambda>c. None)"
  "json_loads sample_env s =
     (if s = sample_json then Loaded (PDict sample_req) else DecodeError ''Expecting value'')"
  "b64decode sample_env s = (if s = ''/9j/2Q=='' then Some sample_jpeg else None)"
  "image_save_jpeg sample_env im = Inr sample_jpeg"
  "uuid4 sample_env = ''0b8f6a2e-5f0c-4c1d-9d3a-7e1f2a3b4c5d''"
  "utcnow sample_env n = ''2024-01-01T00:00:00''"
  by (simp_all add: sample_env_def)

lemma sample_world_sel [simp]:
  "table_exists sample_world" "bucket_exists sample_world" "blobs sample_world = Map.empty"
  "items sample_world = Map.empty" "calls sample_world = []" "stdout sample_world = []"
  by (simp_all add: sample_world_def)

lemma sample_initialise:
  "initialise sample_env sample_world = (Inr (), sample_world\<lparr>calls := [TableLoad, HeadBucket]\<rparr>)"
  by (simp add: initialise_def create_table_if_not_exists_def create_bucket_if_not_exists_def
      table_load_def head_bucket_def record_call_def)

lemma sample_parse_body: "parse_body env (body_event req) = Next req"
  by (simp add: parse_body_def body_event_def dict_get_def)

lemma sample_request_size: "validate_request_size (body_event req) = Inr ()"
  by (simp add: validate_request_size_def body_event_def dict_get_def)
subsection \<open>The tag loop\<close>

lemma tags_loop_kept: "tags_loop ts acc = acc @ kept_tags ts"
proof (induction ts arbitrary: acc)
  case Nil
  show ?case by (simp add: kept_tags_def)
next
  case (Cons v rest)
  show ?case
  proof (cases v)
    case (PStr s)
    then show ?thesis
      using Cons.IH by (simp add: kept_tags_def Let_def sub_unsafe_strip Suc_le_eq)
  qed (simp_all add: Cons.IH kept_tags_def)
qed

lemma kept_tags_ok: "list_all tag_ok (kept_tags ts)"
  by (auto simp: kept_tags_def tag_ok_def list_all_iff)

lemma str_entries_filter: "str_entries (filter is_str ts) = str_entries ts"
  by (induction ts rule: str_entries.induct) simp_all

lemma kept_tags_filter: "kept_tags (filter is_str ts) = kept_tags ts"
  by (simp add: kept_tags_def str_entries_filter)

lemma length_str_entries: "length (str_entries ts) = length (filter is_str ts)"
  by (induction ts rule: str_entries.induct) simp_all

lemma too_many_tags_message: "str_of_nat MAX_TAGS_COUNT = ''10''"
  by (simp add: MAX_TAGS_COUNT_def str_of_nat.simps digit_char_def)

lemma validate_tags_list:
  "validate_tags (PList ts) =
     (if length ts > 10 then Inl (SecurityError ''Too many tags. Max count: 10'')
      else Inr (kept_tags ts))"
  using tags_loop_kept[of ts "[]"]
  by (simp add: validate_tags_def too_many_tags_message) (simp add: MAX_TAGS_COUNT_def)

lemma validate_tags_non_list: "\<not> is_list v \<Longrightarrow> validate_tags v = Inr []"
  by (cases v) (simp_all add: validate_tags_def)

lemma validate_tags_output: "validate_tags v = Inr out \<Longrightarrow> list_all tag_ok out"
proof (cases v)
  case (PList ts)
  assume "validate_tags v = Inr out"
  with PList have "out = kept_tags ts"
    by (simp add: validate_tags_list split: if_splits)
  then show ?thesis by (simp add: kept_tags_ok)
qed (auto simp: validate_tags_def)

subsection \<open>Keys\<close>

lemma take_hexdigest:
  "take 8 (hexdigest h) = map (\<lambda>i. hex_char (unat (drop_bit (4 * (63 - i)) h))) [0..<8]"
  by (simp add: hexdigest_def take_map)

lemma upt_8: "[0..<8] = [0, 1, 2, 3, 4, 5, 6, 7::nat]"
  by (simp add: upt_rec)

lemma hex_char_is_hex: "is_hex (hex_char d)"
proof -
  have "d mod 16 < length ''0123456789abcdef''" by simp
  then have "''0123456789abcdef'' ! (d mod 16) \<in> set ''0123456789abcdef''"
    by (rule nth_mem)
  then show ?thesis by (simp only: is_hex_def hex_char_def List.member_iff)
qed

lemma user_hash_hex: "list_all is_hex (take 8 (hexdigest h))"
  by (simp add: take_hexdigest list_all_iff hex_char_is_hex)

lemma user_hash_length: "length (take 8 (hexdigest h)) = 8"
  by (simp add: take_hexdigest)

lemma is_hex_not_slash_dot: "is_hex c \<Longrightarrow> c \<noteq> CHR ''/'' \<and> c \<noteq> CHR ''.''"
  by (auto simp: is_hex_def)

lemma safe_char_not_slash_dot: "safe_char c \<Longrightarrow> c \<noteq> CHR ''/'' \<and> c \<noteq> CHR ''.''"
  by (auto simp: safe_char_def)

lemma split_on_not_Nil: "split_on c xs \<noteq> []"
  by (induction xs) (auto split: list.splits)

lemma split_on_none: "c \<notin> set xs \<Longrightarrow> split_on c xs = [xs]"
  by (induction xs) auto

lemma split_on_append: "c \<notin> set xs \<Longrightarrow> split_on c (xs @ c # ys) = xs # split_on c ys"
  by (induction xs) (auto split: list.splits simp: split_on_not_Nil)

lemma no_dots_before_extension:
  "CHR ''.'' \<notin> set xs \<Longrightarrow> \<not> sublist ''..'' (xs @ ''.jpg'')"
  by (induction xs) (auto simp: sublist_Cons_right)

subsection \<open>The stages of the upload handler\<close>

lemma handler_try_oversize:
  "validate_request_size event = Inl e \<Longrightarrow> handler_try env event w = (Raise e, w)"
  by (simp add: handler_try_def)

lemma handler_try_no_resources:
  "validate_request_size event = Inr () \<Longrightarrow> initialise env w = (Inl e, w2) \<Longrightarrow>
   handler_try env event w = (Raise e, w2)"
  by (simp add: handler_try_def)

lemma handler_try_initialised:
  "validate_request_size event = Inr () \<Longrightarrow> initialise env w = (Inr (), w2) \<Longrightarrow>
   handler_try env event w =
     (case parse_body env event of
        Respond m c \<Rightarrow> (Respond m c, w2)
      | Raise e \<Rightarrow> (Raise e, w2)
      | Next req \<Rightarrow>
          (case validate_inputs env req of
             Respond m c \<Rightarrow> (Respond m c, w2)
           | Raise e \<Rightarrow> (Raise e, w2)
           | Next f \<Rightarrow>
               (case process_stage env (f_image_data f) of
                  Respond m c \<Rightarrow> (Respond m c, w2)
                | Raise e \<Rightarrow> (Raise e, w2)
                | Next processed \<Rightarrow> persist env f processed w2)))"
  by (simp add: handler_try_def)

lemma parse_body_flow:
  "parse_body env event = Respond m c \<Longrightarrow> c = 400"
  "parse_body env event = Raise e \<Longrightarrow> e \<noteq> SecurityError m'"
  by (auto simp: parse_body_def split: pyval.splits json_result.splits flow.splits)

lemma validate_inputs_flow:
  "validate_inputs env req = Respond m c \<Longrightarrow> c = 400"
  "validate_inputs env req \<noteq> Raise e"
  by (auto simp: validate_inputs_def split: sum.splits)

lemma process_stage_flow:
  "process_stage env b = Respond m c \<Longrightarrow> c = 400"
  "process_stage env b \<noteq> Raise e"
  "process_stage env b = Next p \<longleftrightarrow> process_image env b = Inr p"
  "(\<exists>m. process_stage env b = Respond m 400) \<longleftrightarrow> (\<exists>x. process_image env b = Inl x)"
  by (auto simp: process_stage_def split: sum.splits)

lemma put_object_exn: "put_object env key obj w = (Inl e, w') \<Longrightarrow> e \<noteq> SecurityError m"
  by (auto simp: put_object_def Let_def split: option.splits if_splits)

lemma put_item_exn: "put_item env item w = (Inl e, w') \<Longrightarrow> e \<noteq> SecurityError m"
  by (auto simp: put_item_def Let_def split: option.splits if_splits pyval.splits)

lemma persist_flow:
  "persist env f p w = (Next r, w') \<Longrightarrow> statusCode r = 201"
  "persist env f p w \<noteq> (Respond m c, w')"
  "persist env f p w = (Raise e, w') \<Longrightarrow> e \<noteq> SecurityError m'"
  by (auto simp: persist_def upload_image_def success_response_def Let_def
      split: prod.splits sum.splits dest: put_object_exn put_item_exn)

lemma handler_outcome:
  assumes run: "secure_lambda_handler env event w = (r, w')"
    and ht: "handler_try env event w = (out, w1)"
  shows "case out of
           Next r0 \<Rightarrow> r = r0 \<and> w' = w1
         | Respond m c \<Rightarrow> statusCode r = c \<and> body r = error_body (generic_message c)
         | Raise e \<Rightarrow>
             (if exn_class e = ''SecurityError''
              then statusCode r = 400 \<and> body r = error_body ''Invalid request''
              else statusCode r = 500
                \<and> body r = error_body ''An error occurred processing your request'')"
proof (cases out)
  case (Next r0)
  with handler_of_next[of env event w r0 w1] ht run show ?thesis by simp
next
  case (Respond m c)
  with answered_with_error[OF run handler_of_respond[of env event w m c w1]] ht
  show ?thesis by simp
next
  case (Raise e)
  show ?thesis
  proof (cases e)
    case (SecurityError m)
    with answered_with_error[OF run handler_of_security[of env event w m w1]] ht Raise
    show ?thesis by simp
  next
    case (ClientError c m)
    then have "\<And>m. e \<noteq> SecurityError m" by simp
    from answered_with_error[OF run handler_of_other[of env event w e w1, OF _ this]] ht Raise ClientError
    show ?thesis by simp
  next
    case (KeyError k)
    then have "\<And>m. e \<noteq> SecurityError m" by simp
    from answered_with_error[OF run handler_of_other[of env event w e w1, OF _ this]] ht Raise KeyError
    show ?thesis by simp
  next
    case (OtherError m)
    then have "\<And>m. e \<noteq> SecurityError m" by simp
    from answered_with_error[OF run handler_of_other[of env event w e w1, OF _ this]] ht Raise OtherError
    show ?thesis by simp
  qed
qed

lemma not_security_class:
  assumes "\<And>m. e \<noteq> SecurityError m"
  shows "exn_class e \<noteq> ''SecurityError''"
proof (cases e)
  case (SecurityError m)
  with assms show ?thesis by blast
qed simp_all

lemma oversize_payload_rejected:
  "b64decode env s = Some d \<Longrightarrow> length d > MAX_IMAGE_SIZE \<Longrightarrow>
   \<exists>m. validate_image_data env (PStr s) = Inl (SecurityError m)"
  by (simp add: validate_image_data_def)

lemma validate_inputs_bad_image:
  "validate_image_data env (dict_get req ''image_data'' (PStr '''')) = Inl e \<Longrightarrow>
   validate_inputs env req \<noteq> Next f"
  by (simp add: validate_inputs_def split: sum.splits)

subsection \<open>Persisting\<close>

lemma create_table_if_not_exists_ok:
  "create_table_if_not_exists env w = (Inr u, w') \<Longrightarrow>
   table_exists w' \<and> bucket_exists w' = bucket_exists w"
  unfolding create_table_if_not_exists_def table_load_def create_table_def record_call_def
  by (auto simp: Let_def split: option.splits if_splits prod.splits sum.splits exn.splits)

lemma create_bucket_if_not_exists_ok:
  "create_bucket_if_not_exists env w = (Inr u, w') \<Longrightarrow>
   bucket_exists w' \<and> table_exists w' = table_exists w"
  unfolding create_bucket_if_not_exists_def head_bucket_def create_bucket_def record_call_def
  by (auto simp: Let_def split: option.splits if_splits prod.splits sum.splits exn.splits)

lemma initialise_ok:
  assumes "initialise env w = (Inr u, w')"
  shows "table_exists w'" and "bucket_exists w'"
proof -
  from assms obtain u1 w1 where t: "create_table_if_not_exists env w = (Inr u1, w1)"
    and b: "create_bucket_if_not_exists env w1 = (Inr u, w')"
    by (auto simp: initialise_def split: prod.splits sum.splits)
  from create_table_if_not_exists_ok[OF t] create_bucket_if_not_exists_ok[OF b]
  show "table_exists w'" and "bucket_exists w'" by simp_all
qed

lemma upload_item_image_id: "map_of (upload_item env f p) ''image_id'' = Some (PStr (uuid4 env))"
  by (cases p) (simp add: upload_item_def metadata_item_def)

lemma persist_blob_fails:
  assumes "fault env (PutObject (upload_key env f)) = Some e"
  shows "persist env f p w = (Raise (raised e), w\<lparr>calls := calls w @ [PutObject (upload_key env f)]\<rparr>)"
  using assms
  by (simp add: persist_def upload_image_def put_object_def record_call_def upload_key_def
      Let_def split: prod.splits)

lemma persist_item_fails:
  assumes "bucket_exists w"
    and "fault env (PutObject (upload_key env f)) = None"
    and "fault env (PutItem (upload_item env f p)) = Some e"
  shows "persist env f p w =
     (Raise (raised e),
      w\<lparr>calls := calls w @ [PutObject (upload_key env f), PutItem (upload_item env f p)],
        blobs := (blobs w)(upload_key env f \<mapsto> upload_object env f p)\<rparr>)"
  using assms
  by (cases p)
     (simp add: persist_def upload_image_def put_object_def put_item_def record_call_def
      upload_key_def upload_item_def upload_object_def Let_def)

lemma persist_succeeds:
  assumes "bucket_exists w" and "table_exists w"
    and "fault env (PutObject (upload_key env f)) = None"
    and "fault env (PutItem (upload_item env f p)) = None"
  shows "persist env f p w =
     (Next (success_response env
              (success_data env f (uuid4 env) (fst p) (fst (snd p)) (fst (snd (snd p)))) 201),
      w\<lparr>calls := calls w @ [PutObject (upload_key env f), PutItem (upload_item env f p)],
        blobs := (blobs w)(upload_key env f \<mapsto> upload_object env f p),
        items := (items w)(uuid4 env \<mapsto> upload_item env f p)\<rparr>)"
proof (cases p)
  case (fields processed_bytes width height format_type)
  have "map_of (metadata_item env f (uuid4 env) (upload_key env f) processed_bytes width height
          format_type) ''image_id'' = Some (PStr (uuid4 env))"
    by (simp add: metadata_item_def)
  with assms fields show ?thesis
    by (simp add: persist_def upload_image_def put_object_def put_item_def record_call_def
        upload_key_def upload_item_def upload_object_def Let_def)
qed

lemma handler_try_persists:
  assumes "validate_request_size event = Inr ()" and "initialise env w = (Inr (), w2)"
    and "parse_body env event = Next req" and "validate_inputs env req = Next f"
    and "process_image env (f_image_data f) = Inr p"
  shows "handler_try env event w = persist env f p w2"
  using assms by (simp add: handler_try_initialised process_stage_def)

lemma error_response_world [simp]:
  "blobs (snd (error_response env m c w)) = blobs w"
  "items (snd (error_response env m c w)) = items w"
  "calls (snd (error_response env m c w)) = calls w"
  by (simp_all add: error_response_def print_def)

lemma print_world [simp]:
  "blobs (print l w) = blobs w" "items (print l w) = items w" "calls (print l w) = calls w"
  by (simp_all add: print_def)

lemma storage_failure_answer:
  assumes run: "secure_lambda_handler env event w = (r, w')"
    and ht: "handler_try env event w = (Raise (raised e), w3)"
  shows "statusCode r = 500"
    and "body r = error_body ''An error occurred processing your request''"
    and "blobs w' = blobs w3" and "items w' = items w3" and "calls w' = calls w3"
proof -
  have ns: "\<And>m. raised e \<noteq> SecurityError m" by simp
  have eq: "(r, w') = error_response env ''Internal server error'' 500
               (print (''Unexpected error: '' @ exn_str (raised e)) w3)"
    using handler_of_other[OF ht ns] run by simp
  then have r: "r = fst (error_response env ''Internal server error'' 500
               (print (''Unexpected error: '' @ exn_str (raised e)) w3))"
    and w: "w' = snd (error_response env ''Internal server error'' 500
               (print (''Unexpected error: '' @ exn_str (raised e)) w3))"
    by (metis fst_conv, metis snd_conv)
  show "statusCode r = 500" and "body r = error_body ''An error occurred processing your request''"
    unfolding r by simp_all
  show "blobs w' = blobs w3" and "items w' = items w3" and "calls w' = calls w3"
    unfolding w by simp_all
qed

subsection \<open>The sample request, stage by stage\<close>

lemma sample_initialise_any:
  "fault env TableLoad = None \<Longrightarrow> fault env HeadBucket = None \<Longrightarrow>
   initialise env sample_world = (Inr (), sample_world\<lparr>calls := [TableLoad, HeadBucket]\<rparr>)"
  by (simp add: initialise_def create_table_if_not_exists_def create_bucket_if_not_exists_def
      table_load_def head_bucket_def record_call_def)

lemma sample_user_id: "validate_user_id (PStr ''user123'') = Inr ''user123''"
  by (simp add: validate_user_id_def sub_unsafe_strip safe_char_def)

lemma sample_image_data:
  "b64decode env ''/9j/2Q=='' = Some sample_jpeg \<Longrightarrow>
   validate_image_data env (PStr ''/9j/2Q=='') = Inr sample_jpeg"
  by (simp add: validate_image_data_def base64_format_def b64_char_def MAX_IMAGE_SIZE_def
      sample_jpeg_def)

lemma sample_title:
  "validate_text_field (PStr ''Test Image'') ''title'' MAX_TITLE_LENGTH = Inr ''Test Image''"
  by (simp add: validate_text_field_def sub_markup_def markup_char_def strip_def is_space_def
      MAX_TITLE_LENGTH_def)

lemma sample_no_text: "validate_text_field (PStr '''') field limit = Inr ''''"
  by (simp add: validate_text_field_def sub_markup_def strip_def)

lemma sample_validate_inputs:
  "b64decode env ''/9j/2Q=='' = Some sample_jpeg \<Longrightarrow>
   validate_inputs env sample_req = Next sample_fields"
  by (simp add: validate_inputs_def sample_req_def dict_get_def sample_user_id sample_image_data
      sample_title sample_no_text validate_tags_list kept_tags_def safe_char_def sample_fields_def)

lemma sample_process_image:
  "image_open env sample_jpeg = Inr sample_image \<Longrightarrow>
   image_save_jpeg env sample_image = Inr sample_jpeg \<Longrightarrow>
   process_image env sample_jpeg = Inr sample_processed"
  by (simp add: process_image_def process_image_try_def sample_image_def format_allowed_def
      ALLOWED_IMAGE_FORMATS_def format_or_jpeg_def sample_processed_def)

subsection \<open>Requests that differ in their tags\<close>

lemma validate_inputs_tags:
  assumes "validate_user_id (dict_get req ''user_id'' (PStr '''')) = Inr uid"
    and "validate_image_data env (dict_get req ''image_data'' (PStr '''')) = Inr data"
    and "validate_text_field (dict_get req ''title'' (PStr '''')) ''title'' MAX_TITLE_LENGTH
           = Inr title"
    and "validate_text_field (dict_get req ''description'' (PStr '''')) ''description''
           MAX_DESCRIPTION_LENGTH = Inr description"
    and "dict_get req ''tags'' (PList []) = PList ts"
  shows "validate_inputs env req =
     (if length ts > 10 then Respond ''Too many tags. Max count: 10'' 400
      else Next \<lparr>f_user_id = uid, f_image_data = data, f_title = title,
                 f_description = description, f_tags = kept_tags ts\<rparr>)"
  using assms by (simp add: validate_inputs_def validate_tags_list)

lemma upload_item_tags:
  "map_of (upload_item env f p) ''tags'' = Some (PList (map PStr (f_tags f)))"
  by (cases p) (simp add: upload_item_def metadata_item_def)

lemma sample_tagged_inputs:
  assumes "b64decode env ''/9j/2Q=='' = Some sample_jpeg"
  shows "validate_user_id (dict_get eleven_tag_req ''user_id'' (PStr '''')) = Inr ''user123''"
    and "validate_image_data env (dict_get eleven_tag_req ''image_data'' (PStr ''''))
           = Inr sample_jpeg"
    and "validate_text_field (dict_get eleven_tag_req ''title'' (PStr '''')) ''title''
           MAX_TITLE_LENGTH = Inr ''Test Image''"
    and "validate_text_field (dict_get eleven_tag_req ''description'' (PStr '''')) ''description''
           MAX_DESCRIPTION_LENGTH = Inr ''''"
    and "validate_user_id (dict_get dropped_tag_req ''user_id'' (PStr '''')) = Inr ''user123''"
    and "validate_image_data env (dict_get dropped_tag_req ''image_data'' (PStr ''''))
           = Inr sample_jpeg"
    and "validate_text_field (dict_get dropped_tag_req ''title'' (PStr '''')) ''title''
           MAX_TITLE_LENGTH = Inr ''Test Image''"
    and "validate_text_field (dict_get dropped_tag_req ''description'' (PStr '''')) ''description''
           MAX_DESCRIPTION_LENGTH = Inr ''''"
  using assms
  by (simp_all add: eleven_tag_req_def dropped_tag_req_def dict_get_def sample_user_id
      sample_image_data sample_title sample_no_text)

subsection \<open>The owner id in the handler\<close>

lemma validate_inputs_bad_owner_message:
  assumes "\<not> owner_id_acceptable (dict_get req ''user_id'' (PStr ''''))"
  shows "validate_inputs env req = Respond ''Invalid user_id format'' 400
       \<or> validate_inputs env req = Respond ''user_id must be 3-50 characters'' 400"
  using validate_user_id_rejects[OF assms] by (auto simp: validate_inputs_def)

lemma str_of_nat_400: "str_of_nat 400 = ''400''"
  by (simp add: str_of_nat.simps digit_char_def)

lemma str_of_nat_500: "str_of_nat 500 = ''500''"
  by (simp add: str_of_nat.simps digit_char_def)

lemma error_response_log:
  "stdout (snd (error_response env m c w)) = stdout w @ [''Error '' @ str_of_nat c @ '': '' @ m]"
  by (simp add: error_response_def print_def)

lemma short_owner_unacceptable:
  "\<not> owner_id_acceptable (dict_get short_owner_req ''user_id'' (PStr ''''))"
  by (simp add: owner_id_acceptable_def dict_get_def short_owner_req_def safe_char_def)

lemma table_fault_initialise:
  "initialise table_fault_env sample_world
     = (Inl (OtherError ''Could not connect to the endpoint URL''),
        sample_world\<lparr>calls := [TableLoad]\<rparr>)"
  by (simp add: table_fault_env_def initialise_def create_table_if_not_exists_def
      table_load_def record_call_def)

section \<open>The claims\<close>

text \<open>
  C1, as the specification states it, fails on the code: the handler initialises the
  table and the bucket before it looks at the request, so when the metadata store cannot
  be reached a request with an unacceptable owner id is not answered with a validation
  error. It is answered 500 with the generic internal-error message, after the one call
  that loads the table, and the log holds the connection error, not a word about the
  owner id.
\<close>

theorem C1_bad_owner_answered_500:
  "\<not> owner_id_acceptable (dict_get short_owner_req ''user_id'' (PStr ''''))
   \<and> statusCode (fst (secure_lambda_handler table_fault_env (body_event short_owner_req) sample_world))
       = 500
   \<and> body (fst (secure_lambda_handler table_fault_env (body_event short_owner_req) sample_world))
       = error_body ''An error occurred processing your request''
   \<and> calls (snd (secure_lambda_handler table_fault_env (body_event short_owner_req) sample_world))
       = [TableLoad]
   \<and> stdout (snd (secure_lambda_handler table_fault_env (body_event short_owner_req) sample_world))
       = [''Unexpected error: Could not connect to the endpoint URL'',
          ''Error 500: Internal server error'']"
proof -
  have "handler_try table_fault_env (body_event short_owner_req) sample_world
      = (Raise (OtherError ''Could not connect to the endpoint URL''),
         sample_world\<lparr>calls := [TableLoad]\<rparr>)"
    by (simp add: handler_try_no_resources sample_request_size table_fault_initialise)
  then have "secure_lambda_handler table_fault_env (body_event short_owner_req) sample_world
      = error_response table_fault_env ''Internal server error'' 500
          (print (''Unexpected error: '' @ exn_str (OtherError ''Could not connect to the endpoint URL''))
             (sample_world\<lparr>calls := [TableLoad]\<rparr>))"
    by (rule handler_of_other) simp
  then show ?thesis
    by (simp add: short_owner_unacceptable error_response_log str_of_nat_500)
       (simp add: error_response_def print_def)
qed

text \<open>
  C1. An upload request whose owner id is not acceptable (not a non-empty string, or
  with fewer than 3 or more than 50 characters of \<open>[A-Za-z0-9_-]\<close>) is never stored:
  whatever the collaborators do, the handler calls neither \<open>put_object\<close> nor
  \<open>put_item\<close> and leaves both stores as they were. Its answer is decided before the
  owner id only by the resources: when the request passes the size check and
  initialising the table or the bucket raises, the answer is 500 with the body
  \<open>{"error": "An error occurred processing your request"}\<close>; in every other case it
  is the validation error, 400 with the body \<open>{"error": "Invalid request"}\<close>, and once
  the size check and the initialisation have passed, the error logged is the owner id's.
\<close>

theorem C1_bad_owner_not_stored:
  assumes parse: "parse_body env event = Next req"
    and bad: "\<not> owner_id_acceptable (dict_get req ''user_id'' (PStr ''''))"
    and run: "secure_lambda_handler env event w = (r, w')"
  shows "untouched w w'
       \<and> (if validate_request_size event = Inr () \<and> isl (fst (initialise env w))
          then statusCode r = 500
             \<and> body r = error_body ''An error occurred processing your request''
          else statusCode r = 400 \<and> body r = error_body ''Invalid request'')
       \<and> (validate_request_size event = Inr () \<and> \<not> isl (fst (initialise env w)) \<longrightarrow>
            last (stdout w') = ''Error 400: Invalid user_id format''
            \<or> last (stdout w') = ''Error 400: user_id must be 3-50 characters'')"
proof -
  from validate_inputs_bad_owner_message[OF bad, of env]
  obtain m where vi: "validate_inputs env req = Respond m 400"
    and m: "m = ''Invalid user_id format'' \<or> m = ''user_id must be 3-50 characters''"
    by blast
  show ?thesis
  proof (cases "validate_request_size event")
    case (Inl e)
    then have "handler_try env event w = (Raise (SecurityError ''Request too large''), w)"
      using validate_request_size_exn[OF Inl] by (simp add: handler_try_def)
    from answered_with_error[OF run handler_of_security[OF this]]
    show ?thesis using Inl by simp
  next
    case (Inr u)
    then have sz: "validate_request_size event = Inr ()" by simp
    obtain i w2 where init: "initialise env w = (i, w2)" by (cases "initialise env w")
    note un = initialise_untouched[OF init]
    show ?thesis
    proof (cases i)
      case (Inl e)
      then have ht: "handler_try env event w = (Raise e, w2)"
        using Inr init by (simp add: handler_try_def)
      have ns: "\<And>m. e \<noteq> SecurityError m" using initialise_exn init Inl by blast
      from answered_with_error[OF run handler_of_other[OF ht ns]]
      show ?thesis using un init Inl sz by simp
    next
      case (Inr u2)
      then have ht: "handler_try env event w = (Respond m 400, w2)"
        using sz init parse vi by (simp add: handler_try_def)
      note h = handler_of_respond[OF ht]
      have "w' = snd (error_response env m 400 w2)" using run h by simp
      then have "last (stdout w') = ''Error 400: '' @ m"
        by (simp add: error_response_log str_of_nat_400)
      with m have lg: "last (stdout w') = ''Error 400: Invalid user_id format''
            \<or> last (stdout w') = ''Error 400: user_id must be 3-50 characters''"
        by auto
      from answered_with_error[OF run h] lg
      show ?thesis using un init Inr by simp
    qed
  qed
qed

theorem C1_bad_owner_not_stored_witness:
  "parse_body sample_env (body_event short_owner_req) = Next short_owner_req
   \<and> \<not> owner_id_acceptable (dict_get short_owner_req ''user_id'' (PStr ''''))
   \<and> validate_request_size (body_event short_owner_req) = Inr ()
   \<and> \<not> isl (fst (initialise sample_env sample_world))
   \<and> untouched sample_world
         (snd (secure_lambda_handler sample_env (body_event short_owner_req) sample_world))
   \<and> statusCode (fst (secure_lambda_handler sample_env (body_event short_owner_req) sample_world))
       = 400
   \<and> body (fst (secure_lambda_handler sample_env (body_event short_owner_req) sample_world))
       = error_body ''Invalid request''
   \<and> last (stdout (snd (secure_lambda_handler sample_env (body_event short_owner_req) sample_world)))
       = ''Error 400: user_id must be 3-50 characters''"
proof -
  have p: "parse_body sample_env (body_event short_owner_req) = Next short_owner_req"
    by (rule sample_parse_body)
  have s: "validate_request_size (body_event short_owner_req) = Inr ()"
    by (rule sample_request_size)
  have i: "\<not> isl (fst (initialise sample_env sample_world))"
    by (simp add: sample_initialise)
  obtain r w' where run:
    "secure_lambda_handler sample_env (body_event short_owner_req) sample_world = (r, w')"
    by (cases "secure_lambda_handler sample_env (body_event short_owner_req) sample_world")
  have "validate_inputs sample_env short_owner_req
      = Respond ''user_id must be 3-50 characters'' 400"
    by (simp add: validate_inputs_def validate_user_id_def short_owner_req_def dict_get_def
        sub_unsafe_strip safe_char_def)
  then have "handler_try sample_env (body_event short_owner_req) sample_world
      = (Respond ''user_id must be 3-50 characters'' 400,
         sample_world\<lparr>calls := [TableLoad, HeadBucket]\<rparr>)"
    by (simp add: handler_try_def s sample_initialise p)
  note h = handler_of_respond[OF this]
  have "w' = snd (secure_lambda_handler sample_env (body_event short_owner_req) sample_world)"
    using run by simp
  then have "w' = snd (error_response sample_env ''user_id must be 3-50 characters'' 400
                    (sample_world\<lparr>calls := [TableLoad, HeadBucket]\<rparr>))"
    by (simp only: h)
  then have lg: "last (stdout w') = ''Error 400: user_id must be 3-50 characters''"
    by (simp add: error_response_log str_of_nat_400)
  from C1_bad_owner_not_stored[OF p short_owner_unacceptable run] i p s run lg
  show ?thesis by (simp add: short_owner_unacceptable)
qed

text \<open>
  C4. Tag validation never rejects on what an entry contains. A value that is not a
  list gives the empty list, without error. A list is rejected only for having more
  than ten entries; otherwise the result is, in input order, the string entries
  sanitized to \<open>[A-Za-z0-9_-]\<close>, those that are empty after sanitization or longer
  than 50 characters left out. Every tag of every result is made of characters of the
  class and has length 1 to 50.
\<close>

theorem C4_tags_dropped_not_rejected:
  "(\<not> is_list v \<longrightarrow> validate_tags v = Inr [])
   \<and> (\<forall>out. validate_tags v = Inr out \<longrightarrow> list_all tag_ok out)
   \<and> ((\<exists>e. validate_tags (PList ts) = Inl e) \<longleftrightarrow> length ts > 10)
   \<and> (length ts \<le> 10 \<longrightarrow> validate_tags (PList ts) = Inr (kept_tags ts))
   \<and> subseq (kept_tags ts) (map (filter safe_char) (str_entries ts))"
proof -
  have "subseq (kept_tags ts) (map (filter safe_char) (str_entries ts))"
    by (simp add: kept_tags_def)
  then show ?thesis
    using validate_tags_non_list[of v] validate_tags_output[of v]
    by (simp add: validate_tags_list)
qed

theorem C4_tags_dropped_not_rejected_witness:
  "\<not> is_list (PInt 3) \<and> validate_tags (PInt 3) = Inr []
   \<and> length mixed_tags \<le> 10
   \<and> validate_tags (PList mixed_tags) = Inr [''test'', ''sample'']
   \<and> list_all tag_ok [''test'', ''sample'']"
proof -
  have k: "kept_tags mixed_tags = [''test'', ''sample'']"
    by (simp add: kept_tags_def mixed_tags_def safe_char_def)
  have l: "length mixed_tags \<le> 10"
    by (simp add: mixed_tags_def)
  from C4_tags_dropped_not_rejected[of "PInt 3" mixed_tags] k l show ?thesis
    by (simp add: tag_ok_def safe_char_def)
qed

text \<open>
  C10. Entries of the tags list that are not strings are dropped without error: a list
  of at most ten entries validates to what its string entries alone validate to. They
  count all the same toward the limit, which is checked on the list as it came: a list
  of more than ten entries is rejected however few of them are strings.
\<close>

theorem C10_non_strings_dropped_but_counted:
  "(length ts \<le> 10 \<longrightarrow>
      validate_tags (PList ts) = Inr (kept_tags (filter is_str ts))
      \<and> validate_tags (PList ts) = validate_tags (PList (filter is_str ts)))
   \<and> (length ts > 10 \<longrightarrow>
      validate_tags (PList ts) = Inl (SecurityError ''Too many tags. Max count: 10''))"
proof -
  have "length (filter is_str ts) \<le> length ts" by simp
  then have "length ts \<le> 10 \<Longrightarrow> \<not> 10 < length (filter is_str ts)" by linarith
  then show ?thesis
    by (auto simp: validate_tags_list kept_tags_filter)
qed

theorem C10_non_strings_dropped_but_counted_witness:
  "length numbered_tags \<le> 10
   \<and> validate_tags (PList numbered_tags) = Inr [''test'']
   \<and> length eleven_tags > 10 \<and> length (filter is_str eleven_tags) = 1
   \<and> validate_tags (PList eleven_tags) = Inl (SecurityError ''Too many tags. Max count: 10'')"
proof -
  have k: "kept_tags (filter is_str numbered_tags) = [''test'']"
    by (simp add: kept_tags_def numbered_tags_def safe_char_def)
  have l: "length numbered_tags \<le> 10" "length eleven_tags > 10"
    "length (filter is_str eleven_tags) = 1"
    by (simp_all add: numbered_tags_def eleven_tags_def)
  from C10_non_strings_dropped_but_counted[of numbered_tags]
       C10_non_strings_dropped_but_counted[of eleven_tags] k l
  show ?thesis by simp
qed

text \<open>
  C6. The storage key is a function of the owner id and the image id alone (of the
  environment only the hash function enters). For every two strings it is
  \<open>images/\<close>, eight hexadecimal digits of the hash of the owner id as given, the
  sanitized owner id, the sanitized image id and \<open>.jpg\<close>, the parts separated by
  slashes: it has exactly these four segments, none of them is \<open>..\<close>, two dots
  never follow each other anywhere in it, it does not begin with a slash and it ends
  in \<open>.jpg\<close>.
\<close>

theorem C6_secure_key_shape:
  "generate_secure_key env user_id image_id =
     ''images/'' @ user_hash env user_id @ ''/'' @ filter safe_char user_id @ ''/''
       @ filter safe_char image_id @ ''.jpg''
   \<and> length (user_hash env user_id) = 8 \<and> list_all is_hex (user_hash env user_id)
   \<and> split_on CHR ''/'' (generate_secure_key env user_id image_id) =
       [''images'', user_hash env user_id, filter safe_char user_id,
        filter safe_char image_id @ ''.jpg'']
   \<and> ''..'' \<notin> set (split_on CHR ''/'' (generate_secure_key env user_id image_id))
   \<and> \<not> sublist ''..'' (generate_secure_key env user_id image_id)
   \<and> \<not> prefix ''/'' (generate_secure_key env user_id image_id)
   \<and> suffix ''.jpg'' (generate_secure_key env user_id image_id)
   \<and> (sha256 env' = sha256 env \<longrightarrow>
        generate_secure_key env' user_id image_id = generate_secure_key env user_id image_id)"
proof -
  let ?h = "user_hash env user_id"
  let ?u = "filter safe_char user_id"
  let ?i = "filter safe_char image_id"
  let ?key = "generate_secure_key env user_id image_id"
  have key: "?key = ''images/'' @ ?h @ ''/'' @ ?u @ ''/'' @ ?i @ ''.jpg''"
    by (simp add: generate_secure_key_def user_hash_def sub_unsafe_def Let_def)
  have len: "length ?h = 8"
    unfolding user_hash_def by (rule user_hash_length)
  have hex: "list_all is_hex ?h"
    unfolding user_hash_def by (rule user_hash_hex)
  have h_clean: "CHR ''/'' \<notin> set ?h" "CHR ''.'' \<notin> set ?h"
    using hex is_hex_not_slash_dot by (auto simp: list_all_iff)
  have u_clean: "CHR ''/'' \<notin> set ?u" "CHR ''.'' \<notin> set ?u"
    using safe_char_not_slash_dot by auto
  have i_clean: "CHR ''/'' \<notin> set ?i" "CHR ''.'' \<notin> set ?i"
    using safe_char_not_slash_dot by auto
  have last_seg: "split_on CHR ''/'' (?i @ ''.jpg'') = [?i @ ''.jpg'']"
    using i_clean by (intro split_on_none) simp
  have "split_on CHR ''/'' ?key
      = ''images'' # split_on CHR ''/'' (?h @ CHR ''/'' # ?u @ CHR ''/'' # ?i @ ''.jpg'')"
    using split_on_append[of "CHR ''/''" "''images''"] by (simp add: key)
  also have "\<dots> = ''images'' # ?h # split_on CHR ''/'' (?u @ CHR ''/'' # ?i @ ''.jpg'')"
    using split_on_append[OF h_clean(1)] by simp
  also have "\<dots> = ''images'' # ?h # ?u # split_on CHR ''/'' (?i @ ''.jpg'')"
    using split_on_append[OF u_clean(1)] by simp
  finally have segs: "split_on CHR ''/'' ?key = [''images'', ?h, ?u, ?i @ ''.jpg'']"
    by (simp add: last_seg)
  have "''..'' \<noteq> ?h"
  proof
    assume "''..'' = ?h"
    then have "length ''..'' = length ?h" by (rule arg_cong)
    with len show False by simp
  qed
  moreover have "''..'' \<noteq> ?u"
  proof
    assume "''..'' = ?u"
    then have "CHR ''.'' \<in> set ?u" by (metis list.set_intros(1))
    with u_clean(2) show False by contradiction
  qed
  moreover have "''..'' \<noteq> ?i @ ''.jpg''"
  proof
    assume "''..'' = ?i @ ''.jpg''"
    then have "length ''..'' = length (?i @ ''.jpg'')" by (rule arg_cong)
    then show False by simp
  qed
  ultimately have no_seg: "''..'' \<notin> set (split_on CHR ''/'' ?key)"
    by (simp add: segs)
  have "CHR ''.'' \<notin> set (''images/'' @ ?h @ ''/'' @ ?u @ ''/'' @ ?i)"
    using h_clean(2) u_clean(2) i_clean(2) by simp
  from no_dots_before_extension[OF this] have no_dots: "\<not> sublist ''..'' ?key"
    by (simp add: key)
  have start: "\<not> prefix ''/'' ?key" by (simp add: key)
  have ext: "suffix ''.jpg'' ?key"
    unfolding key suffix_def by (rule exI[of _ "''images/'' @ ?h @ ''/'' @ ?u @ ''/'' @ ?i"]) simp
  have pure: "sha256 env' = sha256 env \<longrightarrow> generate_secure_key env' user_id image_id = ?key"
    by (simp add: generate_secure_key_def)
  from key len hex segs no_seg no_dots start ext pure show ?thesis by blast
qed

theorem C6_secure_key_shape_witness:
  "generate_secure_key sample_env ''user123'' ''../../etc/passwd'' =
     ''images/e606e38b/user123/etcpasswd.jpg''
   \<and> sha256 (sample_env\<lparr>uuid4 := ''other''\<rparr>) = sha256 sample_env
   \<and> generate_secure_key (sample_env\<lparr>uuid4 := ''other''\<rparr>) ''user123'' ''../../etc/passwd'' =
     ''images/e606e38b/user123/etcpasswd.jpg''
   \<and> split_on CHR ''/'' ''images/e606e38b/user123/etcpasswd.jpg'' =
       [''images'', ''e606e38b'', ''user123'', ''etcpasswd.jpg'']"
proof -
  have h: "user_hash sample_env ''user123'' = ''e606e38b''"
    by (simp add: user_hash_def sample_env_def take_hexdigest hex_char_def upt_8
        unat_drop_bit_eq drop_bit_eq_div)
  have s: "sha256 (sample_env\<lparr>uuid4 := ''other''\<rparr>) = sha256 sample_env" by simp
  from C6_secure_key_shape[of sample_env "''user123''" "''../../etc/passwd''"
         "sample_env\<lparr>uuid4 := ''other''\<rparr>"] h s
  show ?thesis by (simp add: safe_char_def)
qed

text \<open>
  C5, as the specification states it, fails on the code: an unsupported format, an
  oversized image and undecodable bytes all leave \<open>process_image\<close> as the same
  exception class, \<open>SecurityError\<close>; no failure is typed apart from the others.
\<close>

theorem C5_failures_share_one_class:
  "raised_class (process_image sample_env sample_bmp) = Some ''SecurityError''
   \<and> raised_class (process_image sample_env sample_wide) = Some ''SecurityError''
   \<and> raised_class (process_image sample_env [0, 1, 2]) = Some ''SecurityError''"
  by (simp add: raised_class_def process_image_def process_image_try_def sample_env_def
      sample_bmp_def sample_wide_def sample_jpeg_def sample_image_def format_allowed_def
      ALLOWED_IMAGE_FORMATS_def)

text \<open>
  C5, amended. For every payload that decodes, the transcoder fails when the declared
  format is outside JPEG, PNG, GIF and WEBP, and, the format being allowed, fails when
  the width or the height exceeds 4096. Both failures, and the failure on bytes that do
  not decode, are raised as the one class \<open>SecurityError\<close>; only the message tells
  them apart: \<open>Invalid image data: \<close> followed by \<open>Unsupported image format: \<close> and
  the format, by \<open>Image dimensions too large\<close>, or by the decoder's own message.
\<close>

theorem C5_transcoder_failures:
  "(format_allowed f \<longleftrightarrow>
      f = Some ''JPEG'' \<or> f = Some ''PNG'' \<or> f = Some ''GIF'' \<or> f = Some ''WEBP'')
   \<and> (image_open env b = Inr img \<and> \<not> format_allowed (img_format img) \<longrightarrow>
        process_image env b =
          Inl (SecurityError (''Invalid image data: Unsupported image format: ''
                 @ format_str (img_format img))))
   \<and> (image_open env b = Inr img \<and> format_allowed (img_format img)
        \<and> (fst (img_size img) > 4096 \<or> snd (img_size img) > 4096) \<longrightarrow>
        process_image env b = Inl (SecurityError ''Invalid image data: Image dimensions too large''))
   \<and> (image_open env b = Inl e \<longrightarrow>
        process_image env b = Inl (SecurityError (''Invalid image data: '' @ exn_str e)))
   \<and> (\<forall>x. process_image env b = Inl x \<longrightarrow> exn_class x = ''SecurityError'')"
proof -
  have allowed: "format_allowed f \<longleftrightarrow>
      f = Some ''JPEG'' \<or> f = Some ''PNG'' \<or> f = Some ''GIF'' \<or> f = Some ''WEBP''"
    by (cases f) (auto simp: format_allowed_def ALLOWED_IMAGE_FORMATS_def)
  have fmt: "image_open env b = Inr img \<and> \<not> format_allowed (img_format img) \<longrightarrow>
        process_image env b =
          Inl (SecurityError (''Invalid image data: Unsupported image format: ''
                 @ format_str (img_format img)))"
    by (simp add: process_image_def process_image_try_def)
  have dim: "image_open env b = Inr img \<and> format_allowed (img_format img)
        \<and> (fst (img_size img) > 4096 \<or> snd (img_size img) > 4096) \<longrightarrow>
        process_image env b = Inl (SecurityError ''Invalid image data: Image dimensions too large'')"
    by (auto simp: process_image_def process_image_try_def Let_def)
  have dec: "image_open env b = Inl e \<longrightarrow>
        process_image env b = Inl (SecurityError (''Invalid image data: '' @ exn_str e))"
    by (simp add: process_image_def process_image_try_def)
  have cls: "\<forall>x. process_image env b = Inl x \<longrightarrow> exn_class x = ''SecurityError''"
    by (auto simp: process_image_def split: sum.splits)
  from allowed fmt dim dec cls show ?thesis by blast
qed

theorem C5_transcoder_failures_witness:
  "image_open sample_env sample_bmp = Inr (sample_image\<lparr>img_format := Some ''BMP''\<rparr>)
   \<and> \<not> format_allowed (Some ''BMP'')
   \<and> process_image sample_env sample_bmp =
       Inl (SecurityError ''Invalid image data: Unsupported image format: BMP'')"
proof -
  have o: "image_open sample_env sample_bmp = Inr (sample_image\<lparr>img_format := Some ''BMP''\<rparr>)"
    by (simp add: sample_env_def sample_bmp_def sample_jpeg_def)
  have n: "\<not> format_allowed (Some ''BMP'')"
    by (simp add: format_allowed_def ALLOWED_IMAGE_FORMATS_def)
  from C5_transcoder_failures[of "Some ''BMP''" sample_env sample_bmp
         "sample_image\<lparr>img_format := Some ''BMP''\<rparr>"] o n
  show ?thesis by (simp add: format_str_def)
qed

text \<open>
  C2, as the specification states it, fails on the code: an oversize request is not
  answered with 413. A body of more than 20 MiB, and a payload that decodes to more
  than 10 MiB, are both answered with 400 and \<open>Invalid request\<close>.
\<close>

theorem C2_oversize_answered_400:
  "statusCode (fst (secure_lambda_handler sample_env oversize_event sample_world)) = 400
   \<and> body (fst (secure_lambda_handler sample_env oversize_event sample_world))
       = error_body ''Invalid request''
   \<and> statusCode (fst (secure_lambda_handler big_payload_env (body_event sample_req) sample_world))
       = 400
   \<and> body (fst (secure_lambda_handler big_payload_env (body_event sample_req) sample_world))
       = error_body ''Invalid request''"
proof -
  have "validate_request_size oversize_event = Inl (SecurityError ''Request too large'')"
    by (simp add: validate_request_size_def oversize_event_def dict_get_def MAX_IMAGE_SIZE_def)
  then have a: "secure_lambda_handler sample_env oversize_event sample_world
      = error_response sample_env ''Request too large'' 400 sample_world"
    by (simp add: handler_try_oversize handler_of_security)
  have i: "initialise big_payload_env sample_world
      = (Inr (), sample_world\<lparr>calls := [TableLoad, HeadBucket]\<rparr>)"
    by (simp add: big_payload_env_def initialise_def create_table_if_not_exists_def
        create_bucket_if_not_exists_def table_load_def head_bucket_def record_call_def)
  have u: "validate_user_id (PStr ''user123'') = Inr ''user123''"
    by (simp add: validate_user_id_def sub_unsafe_strip safe_char_def)
  have "validate_image_data big_payload_env (PStr ''/9j/2Q=='')
      = Inl (SecurityError (''Image too large. Max size: '' @ str_of_nat MAX_IMAGE_SIZE @ '' bytes''))"
    by (simp add: validate_image_data_def big_payload_env_def base64_format_def b64_char_def)
       (simp add: MAX_IMAGE_SIZE_def)
  with u have "validate_inputs big_payload_env sample_req
      = Respond (''Image too large. Max size: '' @ str_of_nat MAX_IMAGE_SIZE @ '' bytes'') 400"
    by (simp add: validate_inputs_def sample_req_def dict_get_def)
  with i have "handler_try big_payload_env (body_event sample_req) sample_world
      = (Respond (''Image too large. Max size: '' @ str_of_nat MAX_IMAGE_SIZE @ '' bytes'') 400,
         sample_world\<lparr>calls := [TableLoad, HeadBucket]\<rparr>)"
    by (simp add: handler_try_initialised sample_request_size sample_parse_body)
  from handler_of_respond[OF this] a show ?thesis by simp
qed

text \<open>
  C2, amended. Every response has status 201, 400 or 500. A failing request is
  answered by the kind of its error: 400 for every validation error, every transcoding
  error and every oversize request or payload (all of them \<open>SecurityError\<close>s), 500
  for a storage failure or any other exception. The body of a failure holds only the
  generic message of its status, \<open>Invalid request\<close> for 400 and
  \<open>An error occurred processing your request\<close> for 500, never the detail of the
  error. (The formatter would render status 413 as \<open>Request too large\<close>; the handler
  never asks for it.)
\<close>

theorem C2_status_by_error_kind:
  assumes run: "secure_lambda_handler env event w = (r, w')"
  shows "(statusCode r = 201 \<or> statusCode r = 400 \<or> statusCode r = 500)
    \<and> (statusCode r = 400 \<longrightarrow> body r = error_body ''Invalid request'')
    \<and> (statusCode r = 500 \<longrightarrow> body r = error_body ''An error occurred processing your request'')
    \<and> (validate_request_size event \<noteq> Inr () \<longrightarrow> statusCode r = 400)
    \<and> (validate_request_size event = Inr () \<and> fst (initialise env w) \<noteq> Inr () \<longrightarrow>
         statusCode r = 500)
    \<and> (validate_request_size event = Inr () \<and> fst (initialise env w) = Inr () \<longrightarrow>
         (case parse_body env event of
            Respond m c \<Rightarrow> statusCode r = 400
          | Raise e \<Rightarrow> statusCode r = 500
          | Next req \<Rightarrow>
              (case validate_inputs env req of
                 Next f \<Rightarrow>
                   (case process_image env (f_image_data f) of
                      Inl e \<Rightarrow> statusCode r = 400
                    | Inr p \<Rightarrow>
                        (case fst (persist env f p (snd (initialise env w))) of
                           Raise e \<Rightarrow> statusCode r = 500
                         | _ \<Rightarrow> statusCode r = 201))
               | _ \<Rightarrow> statusCode r = 400)))
    \<and> (\<forall>s. dict_get event ''body'' (PStr '''') = PStr s \<and> length s > 2 * MAX_IMAGE_SIZE \<longrightarrow>
         validate_request_size event \<noteq> Inr ())
    \<and> (\<forall>req s d. dict_get req ''image_data'' (PStr '''') = PStr s \<and> b64decode env s = Some d
          \<and> length d > MAX_IMAGE_SIZE \<longrightarrow> (\<forall>f. validate_inputs env req \<noteq> Next f))"
proof -
  obtain out w1 where ht: "handler_try env event w = (out, w1)"
    by (cases "handler_try env event w")
  note ho = handler_outcome[OF run ht]
  have size: "\<forall>s. dict_get event ''body'' (PStr '''') = PStr s \<and> length s > 2 * MAX_IMAGE_SIZE \<longrightarrow>
         validate_request_size event \<noteq> Inr ()"
    by (auto simp: validate_request_size_def)
  have payload: "\<forall>req s d. dict_get req ''image_data'' (PStr '''') = PStr s \<and> b64decode env s = Some d
          \<and> length d > MAX_IMAGE_SIZE \<longrightarrow> (\<forall>f. validate_inputs env req \<noteq> Next f)"
    using oversize_payload_rejected validate_inputs_bad_image by metis
  have main: "(statusCode r = 201 \<or> statusCode r = 400 \<or> statusCode r = 500)
    \<and> (statusCode r = 400 \<longrightarrow> body r = error_body ''Invalid request'')
    \<and> (statusCode r = 500 \<longrightarrow> body r = error_body ''An error occurred processing your request'')
    \<and> (validate_request_size event \<noteq> Inr () \<longrightarrow> statusCode r = 400)
    \<and> (validate_request_size event = Inr () \<and> fst (initialise env w) \<noteq> Inr () \<longrightarrow>
         statusCode r = 500)
    \<and> (validate_request_size event = Inr () \<and> fst (initialise env w) = Inr () \<longrightarrow>
         (case parse_body env event of
            Respond m c \<Rightarrow> statusCode r = 400
          | Raise e \<Rightarrow> statusCode r = 500
          | Next req \<Rightarrow>
              (case validate_inputs env req of
                 Next f \<Rightarrow>
                   (case process_image env (f_image_data f) of
                      Inl e \<Rightarrow> statusCode r = 400
                    | Inr p \<Rightarrow>
                        (case fst (persist env f p (snd (initialise env w))) of
                           Raise e \<Rightarrow> statusCode r = 500
                         | _ \<Rightarrow> statusCode r = 201))
               | _ \<Rightarrow> statusCode r = 400)))"
  proof (cases "validate_request_size event")
    case (Inl e)
    then have "out = Raise (SecurityError ''Request too large'')"
      using ht validate_request_size_exn[OF Inl] by (simp add: handler_try_oversize)
    with ho Inl show ?thesis by simp
  next
    case (Inr u)
    obtain i w2 where init: "initialise env w = (i, w2)" by (cases "initialise env w")
    show ?thesis
    proof (cases i)
      case (Inl e)
      then have "out = Raise e"
        using ht Inr init by (simp add: handler_try_no_resources)
      moreover have "exn_class e \<noteq> ''SecurityError''"
        using initialise_exn init Inl by (intro not_security_class) blast
      ultimately show ?thesis using ho Inr init Inl by simp
    next
      case (Inr u2)
      note hti = handler_try_initialised[of event env w w2] 
      have hte: "handler_try env event w =
         (case parse_body env event of
            Respond m c \<Rightarrow> (Respond m c, w2)
          | Raise e \<Rightarrow> (Raise e, w2)
          | Next req \<Rightarrow>
              (case validate_inputs env req of
                 Respond m c \<Rightarrow> (Respond m c, w2)
               | Raise e \<Rightarrow> (Raise e, w2)
               | Next f \<Rightarrow>
                   (case process_stage env (f_image_data f) of
                      Respond m c \<Rightarrow> (Respond m c, w2)
                    | Raise e \<Rightarrow> (Raise e, w2)
                    | Next processed \<Rightarrow> persist env f processed w2)))"
        using hti \<open>validate_request_size event = Inr u\<close> init Inr by simp
      show ?thesis
      proof (cases "parse_body env event")
        case (Respond m c)
        then have "out = Respond m 400" using hte ht parse_body_flow(1)[OF Respond] by simp
        with ho \<open>validate_request_size event = Inr u\<close> init Inr Respond show ?thesis by simp
      next
        case (Raise e)
        then have "out = Raise e" using hte ht by simp
        moreover have "exn_class e \<noteq> ''SecurityError''"
          using parse_body_flow(2)[OF Raise] by (intro not_security_class)
        ultimately show ?thesis
          using ho \<open>validate_request_size event = Inr u\<close> init Inr Raise by simp
      next
        case (Next req)
        show ?thesis
        proof (cases "validate_inputs env req")
          case (Respond m c)
          then have "out = Respond m 400"
            using hte ht Next validate_inputs_flow(1)[OF Respond] by simp
          with ho \<open>validate_request_size event = Inr u\<close> init Inr Next Respond
          show ?thesis by simp
        next
          case (Raise e)
          with validate_inputs_flow(2) show ?thesis by blast
        next
          case f: (Next f)
          show ?thesis
          proof (cases "process_image env (f_image_data f)")
            case (Inl x)
            then obtain m where "process_stage env (f_image_data f) = Respond m 400"
              using process_stage_flow(4) by blast
            then have "out = Respond m 400" using hte ht Next f by simp
            with ho \<open>validate_request_size event = Inr u\<close> init Inr Next f Inl
            show ?thesis by simp
          next
            case p: (Inr p)
            then have ps: "process_stage env (f_image_data f) = Next p"
              by (simp add: process_stage_flow(3))
            then have pe: "persist env f p w2 = (out, w1)" using hte ht Next f by simp
            show ?thesis
            proof (cases out)
              case r0: (Next r0)
              then have "statusCode r0 = 201" using persist_flow(1) pe by blast
              with ho r0 pe \<open>validate_request_size event = Inr u\<close> init Inr Next f p
              show ?thesis by simp
            next
              case (Respond m c)
              with persist_flow(2) pe show ?thesis by blast
            next
              case (Raise e)
              then have "exn_class e \<noteq> ''SecurityError''"
                using persist_flow(3) pe by (intro not_security_class) blast
              with ho Raise pe \<open>validate_request_size event = Inr u\<close> init Inr Next f p
              show ?thesis by simp
            qed
          qed
        qed
      qed
    qed
  qed
  from main size payload show ?thesis by blast
qed

theorem C2_status_by_error_kind_witness:
  "validate_request_size oversize_event \<noteq> Inr ()
   \<and> statusCode (fst (secure_lambda_handler sample_env oversize_event sample_world)) = 400
   \<and> body (fst (secure_lambda_handler sample_env oversize_event sample_world))
       = error_body ''Invalid request''"
proof -
  have s: "validate_request_size oversize_event \<noteq> Inr ()"
    by (simp add: validate_request_size_def oversize_event_def dict_get_def MAX_IMAGE_SIZE_def)
  obtain r w' where run: "secure_lambda_handler sample_env oversize_event sample_world = (r, w')"
    by (cases "secure_lambda_handler sample_env oversize_event sample_world")
  from C2_status_by_error_kind[OF run] s run show ?thesis by simp
qed

text \<open>
  C7. Persistence is sequenced blob first. For a request that has passed validation
  and transcoding: if the blob write fails, the handler answers with the storage
  error (status 500, the generic message), \<open>put_object\<close> is the last collaborator
  call it makes, so no metadata row is written, and both stores are as they were; if
  the blob write succeeds and the metadata write fails, the handler answers with the
  same storage error, \<open>put_item\<close> is its last call, so nothing is deleted, the
  metadata store is as it was and the blob store holds the new object under its key.
\<close>

theorem C7_blob_first_no_rollback:
  assumes size: "validate_request_size event = Inr ()"
    and init: "initialise env w = (Inr (), w2)"
    and parse: "parse_body env event = Next req"
    and valid: "validate_inputs env req = Next f"
    and proc: "process_image env (f_image_data f) = Inr p"
    and run: "secure_lambda_handler env event w = (r, w')"
  shows "(fault env (PutObject (upload_key env f)) \<noteq> None \<longrightarrow>
           statusCode r = 500
         \<and> body r = error_body ''An error occurred processing your request''
         \<and> calls w' = calls w2 @ [PutObject (upload_key env f)]
         \<and> items w' = items w \<and> blobs w' = blobs w)
     \<and> (fault env (PutObject (upload_key env f)) = None
         \<and> fault env (PutItem (upload_item env f p)) \<noteq> None \<longrightarrow>
           statusCode r = 500
         \<and> body r = error_body ''An error occurred processing your request''
         \<and> calls w' = calls w2 @ [PutObject (upload_key env f), PutItem (upload_item env f p)]
         \<and> items w' = items w
         \<and> blobs w' = (blobs w)(upload_key env f \<mapsto> upload_object env f p))"
proof -
  note ht = handler_try_persists[OF size init parse valid proc]
  have stores: "blobs w2 = blobs w" "items w2 = items w"
    using initialise_untouched[OF init] by (simp_all add: untouched_def)
  have bucket: "bucket_exists w2" using initialise_ok[OF init] by simp
  have blob: "fault env (PutObject (upload_key env f)) \<noteq> None \<longrightarrow>
           statusCode r = 500
         \<and> body r = error_body ''An error occurred processing your request''
         \<and> calls w' = calls w2 @ [PutObject (upload_key env f)]
         \<and> items w' = items w \<and> blobs w' = blobs w"
  proof
    assume "fault env (PutObject (upload_key env f)) \<noteq> None"
    then obtain e where e: "fault env (PutObject (upload_key env f)) = Some e" by blast
    from storage_failure_answer[OF run ht[unfolded persist_blob_fails[OF e]]] stores
    show "statusCode r = 500
         \<and> body r = error_body ''An error occurred processing your request''
         \<and> calls w' = calls w2 @ [PutObject (upload_key env f)]
         \<and> items w' = items w \<and> blobs w' = blobs w"
      by simp
  qed
  have item: "fault env (PutObject (upload_key env f)) = None
         \<and> fault env (PutItem (upload_item env f p)) \<noteq> None \<longrightarrow>
           statusCode r = 500
         \<and> body r = error_body ''An error occurred processing your request''
         \<and> calls w' = calls w2 @ [PutObject (upload_key env f), PutItem (upload_item env f p)]
         \<and> items w' = items w
         \<and> blobs w' = (blobs w)(upload_key env f \<mapsto> upload_object env f p)"
  proof
    assume a: "fault env (PutObject (upload_key env f)) = None
         \<and> fault env (PutItem (upload_item env f p)) \<noteq> None"
    then obtain e where e: "fault env (PutItem (upload_item env f p)) = Some e" by blast
    from a have o: "fault env (PutObject (upload_key env f)) = None" by simp
    from storage_failure_answer[OF run ht[unfolded persist_item_fails[OF bucket o e]]] stores
    show "statusCode r = 500
         \<and> body r = error_body ''An error occurred processing your request''
         \<and> calls w' = calls w2 @ [PutObject (upload_key env f), PutItem (upload_item env f p)]
         \<and> items w' = items w
         \<and> blobs w' = (blobs w)(upload_key env f \<mapsto> upload_object env f p)"
      by simp
  qed
  from blob item show ?thesis by blast
qed

theorem C7_blob_first_no_rollback_witness:
  "validate_request_size (body_event sample_req) = Inr ()
   \<and> initialise blob_fault_env sample_world
       = (Inr (), sample_world\<lparr>calls := [TableLoad, HeadBucket]\<rparr>)
   \<and> parse_body blob_fault_env (body_event sample_req) = Next sample_req
   \<and> validate_inputs blob_fault_env sample_req = Next sample_fields
   \<and> process_image blob_fault_env (f_image_data sample_fields) = Inr sample_processed
   \<and> fault blob_fault_env (PutObject (upload_key blob_fault_env sample_fields)) \<noteq> None
   \<and> statusCode (fst (secure_lambda_handler blob_fault_env (body_event sample_req) sample_world))
       = 500
   \<and> calls (snd (secure_lambda_handler blob_fault_env (body_event sample_req) sample_world))
       = [TableLoad, HeadBucket, PutObject (upload_key blob_fault_env sample_fields)]
   \<and> items (snd (secure_lambda_handler blob_fault_env (body_event sample_req) sample_world))
       = Map.empty
   \<and> fault item_fault_env (PutObject (upload_key item_fault_env sample_fields)) = None
   \<and> fault item_fault_env (PutItem (upload_item item_fault_env sample_fields sample_processed))
       \<noteq> None
   \<and> statusCode (fst (secure_lambda_handler item_fault_env (body_event sample_req) sample_world))
       = 500
   \<and> calls (snd (secure_lambda_handler item_fault_env (body_event sample_req) sample_world))
       = [TableLoad, HeadBucket, PutObject (upload_key item_fault_env sample_fields),
          PutItem (upload_item item_fault_env sample_fields sample_processed)]
   \<and> items (snd (secure_lambda_handler item_fault_env (body_event sample_req) sample_world))
       = Map.empty
   \<and> blobs (snd (secure_lambda_handler item_fault_env (body_event sample_req) sample_world))
        (upload_key item_fault_env sample_fields)
       = Some (upload_object item_fault_env sample_fields sample_processed)"
proof -
  have s: "validate_request_size (body_event sample_req) = Inr ()"
    by (rule sample_request_size)
  have ib: "initialise blob_fault_env sample_world
       = (Inr (), sample_world\<lparr>calls := [TableLoad, HeadBucket]\<rparr>)"
    by (rule sample_initialise_any) (simp_all add: blob_fault_env_def)
  have ii: "initialise item_fault_env sample_world
       = (Inr (), sample_world\<lparr>calls := [TableLoad, HeadBucket]\<rparr>)"
    by (rule sample_initialise_any) (simp_all add: item_fault_env_def)
  have vb: "validate_inputs blob_fault_env sample_req = Next sample_fields"
    by (rule sample_validate_inputs) (simp add: blob_fault_env_def)
  have vi: "validate_inputs item_fault_env sample_req = Next sample_fields"
    by (rule sample_validate_inputs) (simp add: item_fault_env_def)
  have pb: "process_image blob_fault_env (f_image_data sample_fields) = Inr sample_processed"
    unfolding sample_fields_def by simp
      (rule sample_process_image, simp_all add: blob_fault_env_def sample_env_def)
  have pi: "process_image item_fault_env (f_image_data sample_fields) = Inr sample_processed"
    unfolding sample_fields_def by simp
      (rule sample_process_image, simp_all add: item_fault_env_def sample_env_def)
  have fb: "fault blob_fault_env (PutObject (upload_key blob_fault_env sample_fields)) \<noteq> None"
    by (simp add: blob_fault_env_def)
  have fi: "fault item_fault_env (PutObject (upload_key item_fault_env sample_fields)) = None"
    "fault item_fault_env (PutItem (upload_item item_fault_env sample_fields sample_processed))
       \<noteq> None"
    by (simp_all add: item_fault_env_def)
  obtain rb wb where runb:
    "secure_lambda_handler blob_fault_env (body_event sample_req) sample_world = (rb, wb)"
    by (cases "secure_lambda_handler blob_fault_env (body_event sample_req) sample_world")
  obtain ri wi where runi:
    "secure_lambda_handler item_fault_env (body_event sample_req) sample_world = (ri, wi)"
    by (cases "secure_lambda_handler item_fault_env (body_event sample_req) sample_world")
  from C7_blob_first_no_rollback[OF s ib sample_parse_body vb pb runb]
       C7_blob_first_no_rollback[OF s ii sample_parse_body vi pi runi]
       s ib ii vb vi pb pi fb fi runb runi
  show ?thesis by (simp add: sample_parse_body)
qed

text \<open>
  C3, as the specification states it, fails on the code: ten valid tags and an eleventh
  with no valid character make a list of eleven entries, which \<open>validate_tags\<close>
  rejects before it looks at any entry. The upload is answered with 400 and nothing is
  stored.
\<close>

theorem C3_eleven_tags_rejected:
  "validate_tags (PList (replicate 10 (PStr ''test'') @ [PStr ''!!!'']))
     = Inl (SecurityError ''Too many tags. Max count: 10'')
   \<and> statusCode (fst (secure_lambda_handler sample_env (body_event eleven_tag_req) sample_world))
       = 400
   \<and> items (snd (secure_lambda_handler sample_env (body_event eleven_tag_req) sample_world))
       = Map.empty
   \<and> blobs (snd (secure_lambda_handler sample_env (body_event eleven_tag_req) sample_world))
       = Map.empty"
proof -
  have t: "validate_tags (PList (replicate 10 (PStr ''test'') @ [PStr ''!!!'']))
     = Inl (SecurityError ''Too many tags. Max count: 10'')"
    by (simp add: validate_tags_list)
  have b: "b64decode sample_env ''/9j/2Q=='' = Some sample_jpeg" by simp
  have "validate_inputs sample_env eleven_tag_req = Respond ''Too many tags. Max count: 10'' 400"
    using validate_inputs_tags[OF sample_tagged_inputs(1-4)[OF b],
            of "replicate 10 (PStr ''test'') @ [PStr ''!!!'']"]
    by (simp add: eleven_tag_req_def dict_get_def)
  then have "handler_try sample_env (body_event eleven_tag_req) sample_world
      = (Respond ''Too many tags. Max count: 10'' 400,
         sample_world\<lparr>calls := [TableLoad, HeadBucket]\<rparr>)"
    by (simp add: handler_try_initialised sample_request_size sample_parse_body sample_initialise)
  from handler_of_respond[OF this] t show ?thesis by simp
qed

text \<open>
  C3, amended. An upload whose tags list has at most ten entries, entries of invalid
  characters among them, still succeeds when the rest of the request is valid and the
  collaborators work: it is answered with 201, and the tags of the stored record are the
  sanitized string entries, those that are empty after sanitization or longer than 50
  characters left out. A tags list of more than ten entries is answered with 400,
  whatever its entries, and nothing is stored.
\<close>

theorem C3_invalid_tag_dropped_within_limit:
  assumes size: "validate_request_size event = Inr ()"
    and init: "initialise env w = (Inr (), w2)"
    and parse: "parse_body env event = Next req"
    and user: "validate_user_id (dict_get req ''user_id'' (PStr '''')) = Inr uid"
    and image: "validate_image_data env (dict_get req ''image_data'' (PStr '''')) = Inr data"
    and title: "validate_text_field (dict_get req ''title'' (PStr '''')) ''title''
                  MAX_TITLE_LENGTH = Inr title"
    and desc: "validate_text_field (dict_get req ''description'' (PStr '''')) ''description''
                  MAX_DESCRIPTION_LENGTH = Inr description"
    and tags: "dict_get req ''tags'' (PList []) = PList ts"
    and proc: "process_image env data = Inr p"
    and works: "fault env = (\<lambda>c. None)"
    and run: "secure_lambda_handler env event w = (r, w')"
  shows "(length ts \<le> 10 \<longrightarrow>
            statusCode r = 201
          \<and> (\<exists>item. items w' (uuid4 env) = Some item
                \<and> map_of item ''tags'' = Some (PList (map PStr (kept_tags ts))))
          \<and> list_all tag_ok (kept_tags ts))
       \<and> (length ts > 10 \<longrightarrow>
            statusCode r = 400 \<and> body r = error_body ''Invalid request''
          \<and> items w' = items w \<and> blobs w' = blobs w)"
proof -
  let ?f = "\<lparr>f_user_id = uid, f_image_data = data, f_title = title,
             f_description = description, f_tags = kept_tags ts\<rparr>"
  note vi = validate_inputs_tags[OF user image title desc tags]
  have stores: "blobs w2 = blobs w" "items w2 = items w"
    using initialise_untouched[OF init] by (simp_all add: untouched_def)
  have few: "length ts \<le> 10 \<longrightarrow>
            statusCode r = 201
          \<and> (\<exists>item. items w' (uuid4 env) = Some item
                \<and> map_of item ''tags'' = Some (PList (map PStr (kept_tags ts))))
          \<and> list_all tag_ok (kept_tags ts)"
  proof
    assume "length ts \<le> 10"
    then have v: "validate_inputs env req = Next ?f" using vi by simp
    have pr: "process_image env (f_image_data ?f) = Inr p" using proc by simp
    have "persist env ?f p w2 =
       (Next (success_response env
                (success_data env ?f (uuid4 env) (fst p) (fst (snd p)) (fst (snd (snd p)))) 201),
        w2\<lparr>calls := calls w2 @ [PutObject (upload_key env ?f), PutItem (upload_item env ?f p)],
          blobs := (blobs w2)(upload_key env ?f \<mapsto> upload_object env ?f p),
          items := (items w2)(uuid4 env \<mapsto> upload_item env ?f p)\<rparr>)"
      using initialise_ok[OF init] works by (intro persist_succeeds) simp_all
    with handler_try_persists[OF size init parse v pr]
    have "secure_lambda_handler env event w =
       (success_response env
                (success_data env ?f (uuid4 env) (fst p) (fst (snd p)) (fst (snd (snd p)))) 201,
        w2\<lparr>calls := calls w2 @ [PutObject (upload_key env ?f), PutItem (upload_item env ?f p)],
          blobs := (blobs w2)(upload_key env ?f \<mapsto> upload_object env ?f p),
          items := (items w2)(uuid4 env \<mapsto> upload_item env ?f p)\<rparr>)"
      by (simp add: handler_of_next)
    with run have "statusCode r = 201" and "items w' (uuid4 env) = Some (upload_item env ?f p)"
      by (auto simp: success_response_def)
    moreover have "map_of (upload_item env ?f p) ''tags'' = Some (PList (map PStr (kept_tags ts)))"
      by (simp add: upload_item_tags)
    ultimately show "statusCode r = 201
          \<and> (\<exists>item. items w' (uuid4 env) = Some item
                \<and> map_of item ''tags'' = Some (PList (map PStr (kept_tags ts))))
          \<and> list_all tag_ok (kept_tags ts)"
      using kept_tags_ok by blast
  qed
  have many: "length ts > 10 \<longrightarrow>
            statusCode r = 400 \<and> body r = error_body ''Invalid request''
          \<and> items w' = items w \<and> blobs w' = blobs w"
  proof
    assume "length ts > 10"
    then have "validate_inputs env req = Respond ''Too many tags. Max count: 10'' 400"
      using vi by simp
    then have ht: "handler_try env event w = (Respond ''Too many tags. Max count: 10'' 400, w2)"
      using size init parse by (simp add: handler_try_initialised)
    have "(r, w') = error_response env ''Too many tags. Max count: 10'' 400 w2"
      using handler_of_respond[OF ht] run by simp
    then have "r = fst (error_response env ''Too many tags. Max count: 10'' 400 w2)"
      and "w' = snd (error_response env ''Too many tags. Max count: 10'' 400 w2)"
      by (metis fst_conv, metis snd_conv)
    with stores show "statusCode r = 400 \<and> body r = error_body ''Invalid request''
          \<and> items w' = items w \<and> blobs w' = blobs w"
      by simp
  qed
  from few many show ?thesis by blast
qed

theorem C3_invalid_tag_dropped_within_limit_witness:
  "validate_request_size (body_event dropped_tag_req) = Inr ()
   \<and> initialise sample_env sample_world
       = (Inr (), sample_world\<lparr>calls := [TableLoad, HeadBucket]\<rparr>)
   \<and> parse_body sample_env (body_event dropped_tag_req) = Next dropped_tag_req
   \<and> validate_user_id (dict_get dropped_tag_req ''user_id'' (PStr '''')) = Inr ''user123''
   \<and> validate_image_data sample_env (dict_get dropped_tag_req ''image_data'' (PStr ''''))
       = Inr sample_jpeg
   \<and> validate_text_field (dict_get dropped_tag_req ''title'' (PStr '''')) ''title''
       MAX_TITLE_LENGTH = Inr ''Test Image''
   \<and> validate_text_field (dict_get dropped_tag_req ''description'' (PStr '''')) ''description''
       MAX_DESCRIPTION_LENGTH = Inr ''''
   \<and> dict_get dropped_tag_req ''tags'' (PList [])
       = PList [PStr ''test'', PStr ''!!!'', PStr ''sample'']
   \<and> process_image sample_env sample_jpeg = Inr sample_processed
   \<and> fault sample_env = (\<lambda>c. None)
   \<and> length [PStr ''test'', PStr ''!!!'', PStr ''sample''] \<le> 10
   \<and> statusCode (fst (secure_lambda_handler sample_env (body_event dropped_tag_req) sample_world))
       = 201
   \<and> (\<exists>item. items (snd (secure_lambda_handler sample_env (body_event dropped_tag_req)
                          sample_world)) (uuid4 sample_env) = Some item
         \<and> map_of item ''tags'' = Some (PList [PStr ''test'', PStr ''sample'']))"
proof -
  have b: "b64decode sample_env ''/9j/2Q=='' = Some sample_jpeg" by simp
  note f = sample_tagged_inputs(5-8)[OF b]
  have t: "dict_get dropped_tag_req ''tags'' (PList [])
       = PList [PStr ''test'', PStr ''!!!'', PStr ''sample'']"
    by (simp add: dropped_tag_req_def dict_get_def)
  have p: "process_image sample_env sample_jpeg = Inr sample_processed"
    by (rule sample_process_image) (simp_all add: sample_env_def)
  have w: "fault sample_env = (\<lambda>c. None)" by simp
  have k: "kept_tags [PStr ''test'', PStr ''!!!'', PStr ''sample''] = [''test'', ''sample'']"
    by (simp add: kept_tags_def safe_char_def)
  obtain r w' where run:
    "secure_lambda_handler sample_env (body_event dropped_tag_req) sample_world = (r, w')"
    by (cases "secure_lambda_handler sample_env (body_event dropped_tag_req) sample_world")
  from C3_invalid_tag_dropped_within_limit[OF sample_request_size sample_initialise
         sample_parse_body f t p w run] k
  have "statusCode r = 201
     \<and> (\<exists>item. items w' (uuid4 sample_env) = Some item
           \<and> map_of item ''tags'' = Some (PList [PStr ''test'', PStr ''sample'']))"
    by simp
  with f t p w run show ?thesis
    by (simp add: sample_request_size sample_initialise sample_parse_body del: sample_env_sel)
qed

text \<open>
  C9. A delete request that names an image whose metadata row exists (and gives the key
  of its blob) removes the row and is answered with status 200 and the success message,
  whatever becomes of the blob, the metadata store working: when the blob is absent the
  blob store is left as it was, and when deleting the blob raises (the call fails or
  the bucket is missing) the failure is only logged as a warning and the blob store is
  left as it was.
\<close>

theorem C9_delete_lenient_on_blob:
  assumes table: "table_exists w"
    and load: "fault env TableLoad = None"
    and get: "fault env (GetItem image_id) = None"
    and del: "fault env (DeleteItem image_id) = None"
    and named: "path_image_id event = Inr (PStr image_id)"
    and nonempty: "image_id \<noteq> []"
    and row: "items w image_id = Some item"
    and key: "map_of item ''s3_key'' = Some (PStr s3_key)"
    and run: "delete_lambda_handler env event w = (r, w')"
  shows "statusCode r = 200
     \<and> body r = PDict [(''message'', PStr ''Image deleted successfully''),
                        (''image_id'', PStr image_id)]
     \<and> items w' = (items w)(image_id := None)
     \<and> (blobs w s3_key = None \<longrightarrow> blobs w' = blobs w)
     \<and> (fault env (DeleteObject s3_key) \<noteq> None \<or> \<not> bucket_exists w \<longrightarrow>
          blobs w' = blobs w
        \<and> (\<exists>detail. stdout w' = stdout w @ [''Warning: Failed to delete from S3: '' @ detail]))"
proof -
  have ct: "create_table_if_not_exists env w = (Inr (), w\<lparr>calls := calls w @ [TableLoad]\<rparr>)"
    using table load
    by (simp add: create_table_if_not_exists_def table_load_def record_call_def)
  have absent: "blobs w s3_key = None \<Longrightarrow> (blobs w)(s3_key := None) = blobs w"
    by (rule ext) simp
  show ?thesis
  proof (cases "fault env (DeleteObject s3_key)")
    case (Some e)
    with ct table get del named nonempty row key run show ?thesis
      by (auto simp: delete_lambda_handler_def delete_try_def get_item_def delete_object_def
          delete_item_def record_call_def print_def plain_response_def Let_def)
  next
    case None
    show ?thesis
    proof (cases "bucket_exists w")
      case True
      with None ct table get del named nonempty row key run absent show ?thesis
        by (auto simp: delete_lambda_handler_def delete_try_def get_item_def delete_object_def
            delete_item_def record_call_def print_def plain_response_def Let_def)
    next
      case False
      with None ct table get del named nonempty row key run show ?thesis
        by (auto simp: delete_lambda_handler_def delete_try_def get_item_def delete_object_def
            delete_item_def record_call_def print_def plain_response_def Let_def)
    qed
  qed
qed

theorem C9_delete_lenient_on_blob_witness:
  "table_exists orphan_world
   \<and> fault delete_fault_env TableLoad = None
   \<and> fault delete_fault_env (GetItem ''img1'') = None
   \<and> fault delete_fault_env (DeleteItem ''img1'') = None
   \<and> path_image_id delete_event = Inr (PStr ''img1'')
   \<and> items orphan_world ''img1'' = Some orphan_item
   \<and> map_of orphan_item ''s3_key'' = Some (PStr ''images/user123/img1.jpg'')
   \<and> blobs orphan_world ''images/user123/img1.jpg'' = None
   \<and> fault delete_fault_env (DeleteObject ''images/user123/img1.jpg'') \<noteq> None
   \<and> statusCode (fst (delete_lambda_handler delete_fault_env delete_event orphan_world)) = 200
   \<and> items (snd (delete_lambda_handler delete_fault_env delete_event orphan_world)) ''img1''
       = None
   \<and> blobs (snd (delete_lambda_handler delete_fault_env delete_event orphan_world))
       = blobs orphan_world
   \<and> statusCode (fst (delete_lambda_handler sample_env delete_event orphan_world)) = 200
   \<and> items (snd (delete_lambda_handler sample_env delete_event orphan_world)) ''img1'' = None"
proof -
  have t: "table_exists orphan_world" by (simp add: orphan_world_def)
  have f: "fault delete_fault_env TableLoad = None"
    "fault delete_fault_env (GetItem ''img1'') = None"
    "fault delete_fault_env (DeleteItem ''img1'') = None"
    by (simp_all add: delete_fault_env_def)
  have g: "fault sample_env TableLoad = None"
    "fault sample_env (GetItem ''img1'') = None"
    "fault sample_env (DeleteItem ''img1'') = None"
    by simp_all
  have n: "path_image_id delete_event = Inr (PStr ''img1'')"
    by (simp add: path_image_id_def delete_event_def dict_get_def)
  have ne: "''img1'' \<noteq> []" by simp
  have i: "items orphan_world ''img1'' = Some orphan_item" by (simp add: orphan_world_def)
  have k: "map_of orphan_item ''s3_key'' = Some (PStr ''images/user123/img1.jpg'')"
    by (simp add: orphan_item_def)
  have b: "blobs orphan_world ''images/user123/img1.jpg'' = None"
    by (simp add: orphan_world_def)
  have d: "fault delete_fault_env (DeleteObject ''images/user123/img1.jpg'') \<noteq> None"
    by (simp add: delete_fault_env_def)
  obtain r1 w1 where run1: "delete_lambda_handler delete_fault_env delete_event orphan_world = (r1, w1)"
    by (cases "delete_lambda_handler delete_fault_env delete_event orphan_world")
  obtain r2 w2 where run2: "delete_lambda_handler sample_env delete_event orphan_world = (r2, w2)"
    by (cases "delete_lambda_handler sample_env delete_event orphan_world")
  from C9_delete_lenient_on_blob[OF t f n ne i k run1]
       C9_delete_lenient_on_blob[OF t g n ne i k run2]
       t f n i k b d run1 run2
  show ?thesis by simp
qed

text \<open>
  C8 fails on the code for failing requests. A success response carries all five
  required headers. An error response carries \<open>Content-Type: application/json\<close>, the
  configured origin, \<open>X-Content-Type-Options: nosniff\<close> and
  \<open>X-Frame-Options: DENY\<close>, and no \<open>Strict-Transport-Security\<close> header: here the
  sample request with a short owner id, answered with 400, beside the sample request
  that succeeds.
\<close>

theorem C8_error_response_lacks_transport_security:
  "statusCode (fst (secure_lambda_handler sample_env (body_event short_owner_req) sample_world))
     = 400
   \<and> headers (fst (secure_lambda_handler sample_env (body_event short_owner_req) sample_world))
     = [(''Content-Type'', ''application/json''),
        (''Access-Control-Allow-Origin'', ''https://yourdomain.com''),
        (''X-Content-Type-Options'', ''nosniff''),
        (''X-Frame-Options'', ''DENY'')]
   \<and> map_of (headers (fst (secure_lambda_handler sample_env (body_event short_owner_req)
                              sample_world))) ''Strict-Transport-Security'' = None
   \<and> statusCode (fst (secure_lambda_handler sample_env (body_event sample_req) sample_world))
     = 201
   \<and> map_of (headers (fst (secure_lambda_handler sample_env (body_event sample_req)
                              sample_world))) ''Strict-Transport-Security''
     = Some ''max-age=31536000; includeSubDomains''"
proof -
  have "\<not> owner_id_acceptable (dict_get short_owner_req ''user_id'' (PStr ''''))"
    by (simp add: owner_id_acceptable_def dict_get_def short_owner_req_def safe_char_def)
  then obtain m where "validate_inputs sample_env short_owner_req = Respond m 400"
    using validate_inputs_bad_owner by blast
  then have "handler_try sample_env (body_event short_owner_req) sample_world
      = (Respond m 400, sample_world\<lparr>calls := [TableLoad, HeadBucket]\<rparr>)"
    by (simp add: handler_try_initialised sample_request_size sample_parse_body sample_initialise)
  from handler_of_respond[OF this]
  have bad: "fst (secure_lambda_handler sample_env (body_event short_owner_req) sample_world)
      = fst (error_response sample_env m 400 (sample_world\<lparr>calls := [TableLoad, HeadBucket]\<rparr>))"
    by simp
  have v: "validate_inputs sample_env sample_req = Next sample_fields"
    by (rule sample_validate_inputs) simp
  have p: "process_image sample_env (f_image_data sample_fields) = Inr sample_processed"
    unfolding sample_fields_def by simp (rule sample_process_image, simp_all add: sample_env_def)
  have "fst (persist sample_env sample_fields sample_processed
               (sample_world\<lparr>calls := [TableLoad, HeadBucket]\<rparr>))
      = Next (success_response sample_env
                (success_data sample_env sample_fields (uuid4 sample_env) (fst sample_processed)
                   (fst (snd sample_processed)) (fst (snd (snd sample_processed)))) 201)"
    by (subst persist_succeeds) simp_all
  then obtain d w3 where "handler_try sample_env (body_event sample_req) sample_world
      = (Next (success_response sample_env d 201), w3)"
    using handler_try_persists[OF sample_request_size sample_initialise sample_parse_body v p]
    by (metis prod.collapse)
  from handler_of_next[OF this]
  have good: "fst (secure_lambda_handler sample_env (body_event sample_req) sample_world)
      = success_response sample_env d 201"
    by simp
  show ?thesis
    unfolding bad good by (simp add: error_response_def success_response_def cors_origin_def)
qed

end
